theory Spec2Isabelle
  imports Main
begin


section \<open>The workout completion tracker (RecordProvider)\<close>

text \<open>
  The provider keeps three pieces of React state: the list \<open>workoutDays\<close>, the flag
  \<open>isLoading\<close> and the message \<open>error\<close>. The declaration of the type \<open>WorkoutDay\<close>
  lives in \<open>@/lib/types\<close>; the record below has the three fields that
  \<open>toggleWorkoutDay\<close> writes when it builds a new entry.
\<close>

record WorkoutDay =
  user_id :: string
  date :: string
  completed :: bool

record tracker =
  workoutDays :: "WorkoutDay list"
  isLoading :: bool
  error :: "string option"

text \<open>
  The server action \<open>toggleWorkoutDayAction\<close> is imported from \<open>@/app/record/actions\<close>.
  The provider only awaits it: the promise either resolves to an object whose \<open>success\<close>
  field is read (anything else in the object, the payload, is ignored), or it rejects and
  the \<open>catch\<close> block runs. The action is a parameter of the model.
\<close>

datatype 'p action_result = Resolved bool 'p | Rejected

type_synonym 'p toggle_action = "string \<Rightarrow> string \<Rightarrow> bool \<Rightarrow> 'p action_result"

text \<open>The calls a provider operation sends to the server, in the order they are sent.\<close>

datatype server_call =
  ToggleWorkoutDayAction string string bool
  | GetUserWorkouts string

text \<open>
  The two updater callbacks handed to \<open>setWorkoutDays\<close>. Both close over
  \<open>existingWorkout\<close>, the entry found before the update, and receive the list \<open>prev\<close>.
\<close>

definition optimistic ::
  "WorkoutDay option \<Rightarrow> string \<Rightarrow> string \<Rightarrow> bool \<Rightarrow> WorkoutDay list \<Rightarrow> WorkoutDay list" where
  "optimistic existingWorkout uid d newCompleted prev =
     (case existingWorkout of
        Some w \<Rightarrow> map (\<lambda>day. if date day = d then day\<lparr>completed := newCompleted\<rparr> else day) prev
      | None \<Rightarrow> prev @ [\<lparr>user_id = uid, date = d, completed = newCompleted\<rparr>])"

definition revert :: "WorkoutDay option \<Rightarrow> string \<Rightarrow> WorkoutDay list \<Rightarrow> WorkoutDay list" where
  "revert existingWorkout d prev =
     (case existingWorkout of
        Some w \<Rightarrow> map (\<lambda>day. if date day = d then day\<lparr>completed := completed w\<rparr> else day) prev
      | None \<Rightarrow> filter (\<lambda>day. date day \<noteq> d) prev)"

definition newCompleted_of :: "WorkoutDay option \<Rightarrow> bool" where
  "newCompleted_of existingWorkout =
     (case existingWorkout of Some w \<Rightarrow> \<not> completed w | None \<Rightarrow> True)"

text \<open>
  A call of \<open>toggleWorkoutDay\<close> reads two lists. The lookup of \<open>existingWorkout\<close> reads
  \<open>workoutDays\<close> as the render that created the function saw it; this list is the argument
  \<open>rendered\<close>. The updater callbacks receive the list React holds at the moment they run;
  this is the list of the state. The two are the same list for a call made from the render
  of the current state. They differ, for instance, for the second of two calls made from
  one render.

  \<open>toggle_optimistic\<close> is the part of the call that runs before the server is awaited: the
  guard on the user, the lookup and the first \<open>setWorkoutDays\<close>. \<open>user\<close> is the id of the
  signed-in user, \<open>None\<close> when \<open>useAuth\<close> gives no user.
\<close>

definition toggle_optimistic ::
  "string option \<Rightarrow> WorkoutDay list \<Rightarrow> string \<Rightarrow> tracker \<Rightarrow> tracker" where
  "toggle_optimistic user rendered d s =
     (case user of
        None \<Rightarrow> s
      | Some uid \<Rightarrow>
          (let existingWorkout = find (\<lambda>day. date day = d) rendered;
               newCompleted = newCompleted_of existingWorkout
           in s\<lparr>workoutDays := optimistic existingWorkout uid d newCompleted (workoutDays s)\<rparr>))"

text \<open>
  The part of the call that runs once the server has answered: on a reported failure and
  on a rejection the second \<open>setWorkoutDays\<close> reverts, on the list React holds by then and
  with the \<open>existingWorkout\<close> the call found at its start; on success nothing is done.
\<close>

definition toggle_settle ::
  "WorkoutDay option \<Rightarrow> string \<Rightarrow> 'p action_result \<Rightarrow> tracker \<Rightarrow> tracker" where
  "toggle_settle existingWorkout d result s =
     (case result of
        Resolved success payload \<Rightarrow>
          if \<not> success then s\<lparr>workoutDays := revert existingWorkout d (workoutDays s)\<rparr> else s
      | Rejected \<Rightarrow> s\<lparr>workoutDays := revert existingWorkout d (workoutDays s)\<rparr>)"

text \<open>
  The whole call when no other update reaches the list while the server is awaited: the
  answer is settled on the list the optimistic update produced. The result is the final
  state and the server calls that were sent.
\<close>

definition toggleWorkoutDay ::
  "'p toggle_action \<Rightarrow> string option \<Rightarrow> WorkoutDay list \<Rightarrow> string \<Rightarrow> tracker
     \<Rightarrow> tracker \<times> server_call list" where
  "toggleWorkoutDay action user rendered d s =
     (case user of
        None \<Rightarrow> (s, [])
      | Some uid \<Rightarrow>
          (let existingWorkout = find (\<lambda>day. date day = d) rendered;
               newCompleted = newCompleted_of existingWorkout;
               s1 = s\<lparr>workoutDays := optimistic existingWorkout uid d newCompleted (workoutDays s)\<rparr>
           in (toggle_settle existingWorkout d (action uid d newCompleted) s1,
               [ToggleWorkoutDayAction uid d newCompleted])))"

definition isWorkoutCompleted :: "tracker \<Rightarrow> string \<Rightarrow> bool" where
  "isWorkoutCompleted s d =
     (case find (\<lambda>day. date day = d) (workoutDays s) of
        None \<Rightarrow> False
      | Some workout \<Rightarrow> completed workout \<or> False)"





text \<open>
  A run of complete toggle calls, each with its own server behaviour, user, rendered list
  and date; and a run of complete calls each made from the render of the current state.
\<close>

fun run_toggles ::
  "('p toggle_action \<times> string option \<times> WorkoutDay list \<times> string) list \<Rightarrow> tracker \<Rightarrow> tracker" where
  "run_toggles [] s = s"
| "run_toggles ((action, user, rendered, d) # rest) s =
     run_toggles rest (fst (toggleWorkoutDay action user rendered d s))"

fun run_fresh ::
  "('p toggle_action \<times> string option \<times> string) list \<Rightarrow> tracker \<Rightarrow> tracker" where
  "run_fresh [] s = s"
| "run_fresh ((action, user, d) # rest) s =
     run_fresh rest (fst (toggleWorkoutDay action user (workoutDays s) d s))"

text \<open>The invariant of the data model: no two entries share user id and date.\<close>

definition unique_days :: "WorkoutDay list \<Rightarrow> bool" where
  "unique_days days = distinct (map (\<lambda>w. (user_id w, date w)) days)"

definition has_day :: "string \<Rightarrow> WorkoutDay list \<Rightarrow> bool" where
  "has_day d days = (find (\<lambda>day. date day = d) days \<noteq> None)"

definition failed :: "'p action_result \<Rightarrow> bool" where
  "failed r = (case r of Resolved success payload \<Rightarrow> \<not> success | Rejected \<Rightarrow> True)"


text \<open>The initial React state, and the states, servers and reads used in the examples.\<close>

definition initial_tracker :: tracker where
  "initial_tracker = \<lparr>workoutDays = [], isLoading = True, error = None\<rparr>"

definition done_day :: WorkoutDay where
  "done_day = \<lparr>user_id = ''u1'', date = ''2024-01-05'', completed = True\<rparr>"

definition open_day :: WorkoutDay where
  "open_day = \<lparr>user_id = ''u1'', date = ''2024-01-05'', completed = False\<rparr>"

definition done_tracker :: tracker where
  "done_tracker = \<lparr>workoutDays = [done_day], isLoading = True, error = None\<rparr>"

definition open_tracker :: tracker where
  "open_tracker = \<lparr>workoutDays = [open_day], isLoading = True, error = None\<rparr>"

definition always_fail :: "unit toggle_action" where
  "always_fail uid d c = Resolved False ()"

definition always_throw :: "unit toggle_action" where
  "always_throw uid d c = Rejected"

definition always_succeed :: "unit toggle_action" where
  "always_succeed uid d c = Resolved True ()"


section \<open>The exercise queries (server actions)\<close>

text \<open>
  Every server action wraps its body in \<open>try\<close>/\<open>catch\<close> and talks to the database through
  \<open>supabaseServer\<close>, which comes from \<open>@/lib/supabase\<close>. An awaited query either rejects
  (the \<open>await\<close> throws) or resolves to an object with the fields \<open>data\<close> and \<open>error\<close>.
\<close>

datatype exn = QueryRejected

datatype db_error = DbError string

datatype 'a response = Rejects | Reply "'a option" "db_error option"

text \<open>
  Awaiting inside a \<open>try\<close> block: a rejection leaves the block with the exception,
  otherwise the rest of the block runs on the destructured \<open>data\<close> and \<open>error\<close>.
\<close>

definition await :: "'a response \<Rightarrow> ('a option \<Rightarrow> db_error option \<Rightarrow> exn + 'b) \<Rightarrow> exn + 'b" where
  "await r rest = (case r of Rejects \<Rightarrow> Inl QueryRejected | Reply d e \<Rightarrow> rest d e)"

text \<open>
  The rows of the tables, with the columns the code reads. A nullable column is an
  option. The column lists of \<open>select\<close> are not modelled: a query returns whole rows.
\<close>

record category_row =
  cat_id :: int
  cat_name :: string

record exercise_row =
  ex_id :: int
  ex_name :: string
  ex_image_url :: "string option"
  ex_description :: "string option"
  ex_duration :: "string option"
  ex_reps :: "string option"

record fir_row =
  fir_id :: int
  fir_name :: "string option"

record body_section_row =
  bs_id :: int
  body_section :: "string option"

record group_row =
  g_id :: int
  g_name :: string
  g_image_url :: "string option"
  g_body_sec :: int
  g_fir_level :: "int option"

record rpc_group_row =
  r_id :: int
  r_name :: string
  r_image_url :: "string option"
  r_body_sec :: int
  r_body_section :: "string option"
  r_fir_level :: "int option"
  r_fir_name :: "string option"

text \<open>
  An embedded relation of a joined row as the code inspects it: falsy, an array, a single
  object, or a truthy value that is not an object.
\<close>

datatype 'a joined = JNull | JArray "'a list" | JObject 'a | JOther

record joined_group =
  jg_body_sec :: int
  jg_fir_level :: "int option"
  exercise_body_section :: "body_section_row joined"
  exercise_fir :: "fir_row joined"

text \<open>The database as the actions see it: one answer for each query they can send.\<close>

record supabase =
  categories_ilike :: "string \<Rightarrow> category_row list response"
  categories_all :: "category_row list response"
  exercises_by_category :: "int \<Rightarrow> exercise_row list response"
  exercises_limit :: "nat \<Rightarrow> exercise_row list response"
  exercise_by_id :: "int \<Rightarrow> exercise_row response"
  rpc_exercise_groups :: "rpc_group_row list response"
  exercise_groups_by_name :: "group_row list response"
  exercise_fir_all :: "fir_row list response"
  exercise_body_section_all :: "body_section_row list response"
  exercise_group_by_id :: "int \<Rightarrow> joined_group response"
  exercises_by_group :: "string \<Rightarrow> exercise_row list response"
  body_section_by_id :: "int \<Rightarrow> body_section_row response"
  fir_by_id :: "int \<Rightarrow> fir_row response"
  body_sections_in_id_order :: "body_section_row list response"

text \<open>
  The view models. \<open>ExerciseWithLabels\<close> is declared in \<open>@/lib/types\<close>; the record has the
  fields the actions fill in, \<open>categories\<close> being absent in some of them.
\<close>

record ExerciseWithLabels =
  id' :: int
  name :: string
  image :: string
  description :: "string option"
  duration :: "string option"
  reps :: "string option"
  labels :: "string list"
  categories :: "string list option"

record ExerciseGroup =
  group_id :: int
  group_name :: string
  group_description :: "string option"
  group_image_url :: "string option"
  body_sec :: int
  body_section_name :: "string option"
  fir_level :: "int option"
  fir_level_name :: "string option"
  category_id :: "string option"

subsection \<open>JavaScript helpers\<close>

text \<open>\<open>x || d\<close> on a nullable string: \<open>null\<close> and the empty string are falsy.\<close>

definition or_else :: "string option \<Rightarrow> string \<Rightarrow> string" where
  "or_else x d = (case x of None \<Rightarrow> d | Some s \<Rightarrow> if s = [] then d else s)"

definition or_null :: "string option \<Rightarrow> string option" where
  "or_null x = (case x of None \<Rightarrow> None | Some s \<Rightarrow> if s = [] then None else Some s)"

definition truthy :: "string option \<Rightarrow> bool" where
  "truthy x = (case x of None \<Rightarrow> False | Some s \<Rightarrow> s \<noteq> [])"

text \<open>\<open>!data || data.length === 0\<close>\<close>

definition no_rows :: "'a list option \<Rightarrow> bool" where
  "no_rows d = (case d of None \<Rightarrow> True | Some rows \<Rightarrow> length rows = 0)"

definition placeholder_image :: string where
  "placeholder_image = ''/placeholder.svg?height=200&width=300''"

definition startsWith :: "string \<Rightarrow> string \<Rightarrow> bool" where
  "startsWith s p = (take (length p) s = p)"

fun includes_str :: "string \<Rightarrow> string \<Rightarrow> bool" where
  "includes_str [] sub = (sub = [])"
| "includes_str (c # cs) sub = (startsWith (c # cs) sub \<or> includes_str cs sub)"

text \<open>
  Case conversion on the letters A to Z and a to z; every other byte is kept. JavaScript
  also converts letters outside ASCII, so the two agree on ASCII text only.
\<close>

definition lower_char :: "char \<Rightarrow> char" where
  "lower_char c =
     (let n = (of_char c :: nat) in if 65 \<le> n \<and> n \<le> 90 then char_of (n + 32) else c)"

definition upper_char :: "char \<Rightarrow> char" where
  "upper_char c =
     (let n = (of_char c :: nat) in if 97 \<le> n \<and> n \<le> 122 then char_of (n - 32) else c)"

definition toLowerCase :: "string \<Rightarrow> string" where
  "toLowerCase s = map lower_char s"

text \<open>\<open>s.charAt(0).toUpperCase() + s.slice(1)\<close>\<close>

definition capitalize :: "string \<Rightarrow> string" where
  "capitalize s = (case s of [] \<Rightarrow> [] | c # cs \<Rightarrow> upper_char c # cs)"

text \<open>
  \<open>groupId.toString()\<close> for an integer, all digits printed. JavaScript prints a number
  this way below \<open>10\<^sup>2\<^sup>1\<close> and switches to exponent form from there on; an id that is
  not an integer has no counterpart here.
\<close>

definition digit_char :: "nat \<Rightarrow> char" where
  "digit_char n = char_of (48 + n)"

function string_of_nat :: "nat \<Rightarrow> string" where
  "string_of_nat n =
     (if n < 10 then [digit_char n] else string_of_nat (n div 10) @ [digit_char (n mod 10)])"
  by pat_completeness auto
termination
  by (relation "measure (\<lambda>n. n)") auto

definition toString :: "int \<Rightarrow> string" where
  "toString i = (if i < 0 then CHR ''-'' # string_of_nat (nat (- i)) else string_of_nat (nat i))"

text \<open>A nullable string inside a template literal.\<close>

definition template :: "string option \<Rightarrow> string" where
  "template x = (case x of None \<Rightarrow> ''null'' | Some s \<Rightarrow> s)"

subsection \<open>getDefaultCategories\<close>

definition getDefaultCategories :: "string \<Rightarrow> string list" where
  "getDefaultCategories exerciseName =
     (let name = toLowerCase exerciseName;
          categories =
            (if includes_str name ''press'' \<or> includes_str name ''pull'' \<or> includes_str name ''overhead''
             then [''Upper'']
             else if includes_str name ''thrust'' \<or> includes_str name ''brace'' \<or> includes_str name ''lateral''
             then [''Middle'']
             else if includes_str name ''squat'' \<or> includes_str name ''deadlift'' \<or> includes_str name ''raise''
             then [''Lower'']
             else [])
      in categories @ [''FIR: Low''])"

subsection \<open>getWarmupExercises, getStretchExercises, getWorkoutExercises\<close>

definition warmup_placeholder :: ExerciseWithLabels where
  "warmup_placeholder =
     \<lparr>id' = 0, name = ''Sample Warmup Exercise'', image = placeholder_image,
      description = Some ''This is a placeholder. No actual warmup exercises found in the database.'',
      duration = Some ''30'', reps = Some ''4'', labels = [], categories = None\<rparr>"

definition warmup_view :: "exercise_row \<Rightarrow> ExerciseWithLabels" where
  "warmup_view exercise =
     \<lparr>id' = ex_id exercise, name = ex_name exercise,
      image = or_else (ex_image_url exercise) placeholder_image,
      description = Some (or_else (ex_description exercise) ''No description available''),
      duration = Some (or_else (ex_duration exercise) ''30''),
      reps = Some (or_else (ex_reps exercise) ''4''),
      labels = [], categories = None\<rparr>"

definition getWarmupExercises_try :: "supabase \<Rightarrow> exn + ExerciseWithLabels list" where
  "getWarmupExercises_try db =
     await (categories_ilike db ''%warmup%'') (\<lambda>categoryData categoryError.
       if categoryError \<noteq> None then Inr []
       else case categoryData of
         None \<Rightarrow> await (categories_all db) (\<lambda>allCategories allError. Inr [])
       | Some [] \<Rightarrow> await (categories_all db) (\<lambda>allCategories allError. Inr [])
       | Some (category # others) \<Rightarrow>
           await (exercises_by_category db (cat_id category)) (\<lambda>exercises exercisesError.
             if exercisesError \<noteq> None then Inr []
             else if no_rows exercises then Inr [warmup_placeholder]
             else Inr (map warmup_view (case exercises of None \<Rightarrow> [] | Some rows \<Rightarrow> rows))))"

definition getWarmupExercises :: "supabase \<Rightarrow> exn + ExerciseWithLabels list" where
  "getWarmupExercises db =
     (case getWarmupExercises_try db of Inl thrown \<Rightarrow> Inr [] | Inr result \<Rightarrow> Inr result)"

definition stretch_placeholder :: ExerciseWithLabels where
  "stretch_placeholder =
     \<lparr>id' = 0, name = ''Sample Stretch Exercise'', image = placeholder_image,
      description = Some ''This is a placeholder. No actual stretch exercises found in the database.'',
      duration = Some ''15-30'', reps = None, labels = [], categories = None\<rparr>"

definition stretch_view :: "exercise_row \<Rightarrow> ExerciseWithLabels" where
  "stretch_view exercise =
     (let imageUrl =
            (case ex_image_url exercise of
               None \<Rightarrow> placeholder_image
             | Some url \<Rightarrow>
                 if url = [] then placeholder_image
                 else if startsWith url ''http'' \<or> startsWith url ''/'' then url
                 else placeholder_image)
      in \<lparr>id' = ex_id exercise, name = ex_name exercise, image = imageUrl,
          description = Some (or_else (ex_description exercise) ''No description available''),
          duration = Some (or_else (ex_duration exercise) ''15-30''),
          reps = or_null (ex_reps exercise),
          labels = [], categories = None\<rparr>)"

definition getStretchExercises_try :: "supabase \<Rightarrow> exn + ExerciseWithLabels list" where
  "getStretchExercises_try db =
     await (categories_ilike db ''%stretch%'') (\<lambda>categoryData categoryError.
       if categoryError \<noteq> None then Inr []
       else case categoryData of
         None \<Rightarrow> await (categories_all db) (\<lambda>allCategories allError. Inr [])
       | Some [] \<Rightarrow> await (categories_all db) (\<lambda>allCategories allError. Inr [])
       | Some (category # others) \<Rightarrow>
           await (exercises_by_category db (cat_id category)) (\<lambda>exercises exercisesError.
             if exercisesError \<noteq> None then Inr []
             else if no_rows exercises then Inr [stretch_placeholder]
             else Inr (map stretch_view (case exercises of None \<Rightarrow> [] | Some rows \<Rightarrow> rows))))"

definition getStretchExercises :: "supabase \<Rightarrow> exn + ExerciseWithLabels list" where
  "getStretchExercises db =
     (case getStretchExercises_try db of Inl thrown \<Rightarrow> Inr [] | Inr result \<Rightarrow> Inr result)"

definition workout_placeholder :: ExerciseWithLabels where
  "workout_placeholder =
     \<lparr>id' = 0, name = ''Sample Workout Exercise'', image = placeholder_image,
      description = Some ''This is a placeholder. No Workout exercises found in the database.'',
      duration = Some ''60'', reps = None, labels = [], categories = Some [''Sample'']\<rparr>"

definition workout_view :: "exercise_row \<Rightarrow> ExerciseWithLabels" where
  "workout_view exercise =
     \<lparr>id' = ex_id exercise, name = ex_name exercise,
      image = or_else (ex_image_url exercise) placeholder_image,
      description = Some (or_else (ex_description exercise) ''No description available''),
      duration = or_null (ex_duration exercise),
      reps = or_null (ex_reps exercise),
      labels = [], categories = Some (getDefaultCategories (ex_name exercise))\<rparr>"

definition getWorkoutExercises_try :: "supabase \<Rightarrow> exn + ExerciseWithLabels list" where
  "getWorkoutExercises_try db =
     await (categories_ilike db ''%workout%'') (\<lambda>categoryData categoryError.
       if categoryError \<noteq> None then Inr []
       else case categoryData of
         None \<Rightarrow> await (categories_all db) (\<lambda>allCategories allError. Inr [])
       | Some [] \<Rightarrow> await (categories_all db) (\<lambda>allCategories allError. Inr [])
       | Some (category # others) \<Rightarrow>
           await (exercises_by_category db (cat_id category)) (\<lambda>exercises exercisesError.
             if exercisesError \<noteq> None then Inr []
             else if no_rows exercises then
               await (exercises_limit db 10) (\<lambda>fallbackExercises fallbackError.
                 if fallbackError \<noteq> None \<or> no_rows fallbackExercises then Inr [workout_placeholder]
                 else Inr (map workout_view
                        (case fallbackExercises of None \<Rightarrow> [] | Some rows \<Rightarrow> rows)))
             else Inr (map workout_view (case exercises of None \<Rightarrow> [] | Some rows \<Rightarrow> rows))))"

definition getWorkoutExercises :: "supabase \<Rightarrow> exn + ExerciseWithLabels list" where
  "getWorkoutExercises db =
     (case getWorkoutExercises_try db of Inl thrown \<Rightarrow> Inr [] | Inr result \<Rightarrow> Inr result)"

subsection \<open>getExerciseById\<close>

definition by_id_view :: "exercise_row \<Rightarrow> ExerciseWithLabels" where
  "by_id_view exercise =
     \<lparr>id' = ex_id exercise, name = ex_name exercise,
      image = or_else (ex_image_url exercise) placeholder_image,
      description = ex_description exercise,
      duration = or_null (ex_duration exercise),
      reps = or_null (ex_reps exercise),
      labels = [], categories = Some (getDefaultCategories (ex_name exercise))\<rparr>"

definition getExerciseById_try :: "supabase \<Rightarrow> int \<Rightarrow> exn + ExerciseWithLabels option" where
  "getExerciseById_try db i =
     await (exercise_by_id db i) (\<lambda>exercise queryError.
       if queryError \<noteq> None then Inr None
       else case exercise of
         None \<Rightarrow> Inr None
       | Some row \<Rightarrow> Inr (Some (by_id_view row)))"

definition getExerciseById :: "supabase \<Rightarrow> int \<Rightarrow> exn + ExerciseWithLabels option" where
  "getExerciseById db i =
     (case getExerciseById_try db i of Inl thrown \<Rightarrow> Inr None | Inr result \<Rightarrow> Inr result)"

subsection \<open>getExercisesByType\<close>

datatype exercise_type = Warmup | Stretch | Workout

definition categoryPattern :: "exercise_type \<Rightarrow> string" where
  "categoryPattern type =
     (case type of Warmup \<Rightarrow> ''%warmup%'' | Stretch \<Rightarrow> ''%stretch%'' | Workout \<Rightarrow> ''%workout%'')"

definition by_type_view :: "exercise_row \<Rightarrow> ExerciseWithLabels" where
  "by_type_view exercise =
     \<lparr>id' = ex_id exercise, name = ex_name exercise,
      image = or_else (ex_image_url exercise) placeholder_image,
      description = ex_description exercise,
      duration = or_null (ex_duration exercise),
      reps = or_null (ex_reps exercise),
      labels = [], categories = Some []\<rparr>"

definition getExercisesByType_try :: "supabase \<Rightarrow> exercise_type \<Rightarrow> exn + ExerciseWithLabels list" where
  "getExercisesByType_try db type =
     await (categories_ilike db (categoryPattern type)) (\<lambda>categoryData categoryError.
       case categoryData of
         None \<Rightarrow> Inr []
       | Some [] \<Rightarrow> Inr []
       | Some (category # others) \<Rightarrow>
           await (exercises_by_category db (cat_id category)) (\<lambda>exercises queryError.
             if queryError \<noteq> None then Inr []
             else case exercises of
               None \<Rightarrow> Inr []
             | Some rows \<Rightarrow> Inr (map by_type_view rows)))"

definition getExercisesByType :: "supabase \<Rightarrow> exercise_type \<Rightarrow> exn + ExerciseWithLabels list" where
  "getExercisesByType db type =
     (case getExercisesByType_try db type of Inl thrown \<Rightarrow> Inr [] | Inr result \<Rightarrow> Inr result)"

subsection \<open>getExerciseGroups\<close>

text \<open>
  The lookups built with \<open>reduce\<close>: a later row overwrites an earlier one with the same
  id. Reading a key and applying \<open>|| null\<close> gives \<open>null\<close> for a missing key, a \<open>null\<close>
  value and an empty string alike.
\<close>

definition firMap_of :: "fir_row list option \<Rightarrow> (int \<rightharpoonup> string option)" where
  "firMap_of firData =
     foldl (\<lambda>acc item. acc(fir_id item \<mapsto> fir_name item)) Map.empty
       (case firData of None \<Rightarrow> [] | Some rows \<Rightarrow> rows)"

definition bodySectionMap_of :: "body_section_row list option \<Rightarrow> (int \<rightharpoonup> string option)" where
  "bodySectionMap_of bodySectionData =
     foldl (\<lambda>acc item. acc(bs_id item \<mapsto> body_section item)) Map.empty
       (case bodySectionData of None \<Rightarrow> [] | Some rows \<Rightarrow> rows)"

definition lookup_or_null :: "(int \<rightharpoonup> string option) \<Rightarrow> int \<Rightarrow> string option" where
  "lookup_or_null m k = (case m k of None \<Rightarrow> None | Some v \<Rightarrow> or_null v)"

definition fallback_group_view ::
  "(int \<rightharpoonup> string option) \<Rightarrow> (int \<rightharpoonup> string option) \<Rightarrow> group_row \<Rightarrow> ExerciseGroup" where
  "fallback_group_view bodySectionMap firMap grp =
     \<lparr>group_id = g_id grp, group_name = g_name grp, group_description = None,
      group_image_url = g_image_url grp, body_sec = g_body_sec grp,
      body_section_name =
        (if g_body_sec grp \<noteq> 0 then lookup_or_null bodySectionMap (g_body_sec grp) else None),
      fir_level = g_fir_level grp,
      fir_level_name =
        (case g_fir_level grp of
           None \<Rightarrow> None
         | Some level \<Rightarrow> if level \<noteq> 0 then lookup_or_null firMap level else None),
      category_id = None\<rparr>"

definition rpc_group_view :: "rpc_group_row \<Rightarrow> ExerciseGroup" where
  "rpc_group_view grp =
     \<lparr>group_id = r_id grp, group_name = r_name grp, group_description = None,
      group_image_url = r_image_url grp, body_sec = r_body_sec grp,
      body_section_name = or_null (r_body_section grp),
      fir_level = r_fir_level grp,
      fir_level_name = or_null (r_fir_name grp),
      category_id = None\<rparr>"

definition getExerciseGroups_try :: "supabase \<Rightarrow> exn + ExerciseGroup list" where
  "getExerciseGroups_try db =
     await (rpc_exercise_groups db) (\<lambda>data rpcError.
       if rpcError \<noteq> None then
         await (exercise_groups_by_name db) (\<lambda>fallbackData fallbackError.
           if fallbackError \<noteq> None then Inr []
           else case fallbackData of
             None \<Rightarrow> Inr []
           | Some groups \<Rightarrow>
               await (exercise_fir_all db) (\<lambda>firData firError.
                 await (exercise_body_section_all db) (\<lambda>bodySectionData bodySectionError.
                   Inr (map (fallback_group_view (bodySectionMap_of bodySectionData)
                               (firMap_of firData)) groups))))
       else Inr (map rpc_group_view (case data of None \<Rightarrow> [] | Some rows \<Rightarrow> rows)))"

definition getExerciseGroups :: "supabase \<Rightarrow> exn + ExerciseGroup list" where
  "getExerciseGroups db =
     (case getExerciseGroups_try db of Inl thrown \<Rightarrow> Inr [] | Inr result \<Rightarrow> Inr result)"

subsection \<open>getExercisesByGroup\<close>

definition joined_body_section :: "body_section_row joined \<Rightarrow> string option" where
  "joined_body_section j =
     (case j of
        JArray rows \<Rightarrow> (case rows of [] \<Rightarrow> None | first # others \<Rightarrow> or_null (body_section first))
      | JObject row \<Rightarrow> or_null (body_section row)
      | JNull \<Rightarrow> None
      | JOther \<Rightarrow> None)"

definition joined_fir_level :: "fir_row joined \<Rightarrow> string" where
  "joined_fir_level j =
     (case j of
        JArray rows \<Rightarrow> (case rows of [] \<Rightarrow> ''Low'' | first # others \<Rightarrow> or_else (fir_name first) ''Low'')
      | JObject row \<Rightarrow> or_else (fir_name row) ''Low''
      | JNull \<Rightarrow> ''Low''
      | JOther \<Rightarrow> ''Low'')"

definition by_group_view :: "string option \<Rightarrow> string option \<Rightarrow> exercise_row \<Rightarrow> ExerciseWithLabels" where
  "by_group_view bodySection firLevel exercise =
     (let region =
            (case bodySection of
               None \<Rightarrow> find (\<lambda>cat. cat \<in> set [''Upper'', ''Middle'', ''Lower''])
                         (getDefaultCategories (ex_name exercise))
             | Some section \<Rightarrow>
                 if section = []
                 then find (\<lambda>cat. cat \<in> set [''Upper'', ''Middle'', ''Lower''])
                        (getDefaultCategories (ex_name exercise))
                 else Some (capitalize section));
          cats = (case region of None \<Rightarrow> [] | Some r \<Rightarrow> [r]) @ [''FIR: '' @ template firLevel]
      in \<lparr>id' = ex_id exercise, name = ex_name exercise,
          image = or_else (ex_image_url exercise) placeholder_image,
          description = ex_description exercise,
          duration = or_null (ex_duration exercise),
          reps = or_null (ex_reps exercise),
          labels = [], categories = Some cats\<rparr>)"

text \<open>The two lookups that run when the joined row gave no body section or only "Low".\<close>

definition body_section_fallback ::
  "supabase \<Rightarrow> joined_group \<Rightarrow> string option \<Rightarrow> (string option \<Rightarrow> exn + 'b) \<Rightarrow> exn + 'b" where
  "body_section_fallback db grp bodySection rest =
     (if \<not> truthy bodySection \<and> jg_body_sec grp \<noteq> 0 then
        await (body_section_by_id db (jg_body_sec grp)) (\<lambda>bodySectionData lookupError.
          case bodySectionData of
            None \<Rightarrow> rest bodySection
          | Some row \<Rightarrow> rest (body_section row))
      else rest bodySection)"

definition fir_level_fallback ::
  "supabase \<Rightarrow> joined_group \<Rightarrow> string \<Rightarrow> (string option \<Rightarrow> exn + 'b) \<Rightarrow> exn + 'b" where
  "fir_level_fallback db grp firLevel rest =
     (case jg_fir_level grp of
        None \<Rightarrow> rest (Some firLevel)
      | Some level \<Rightarrow>
          if firLevel = ''Low'' \<and> level \<noteq> 0 then
            await (fir_by_id db level) (\<lambda>firData lookupError.
              case firData of
                None \<Rightarrow> rest (Some firLevel)
              | Some row \<Rightarrow> rest (fir_name row))
          else rest (Some firLevel))"

definition getExercisesByGroup_try :: "supabase \<Rightarrow> int \<Rightarrow> exn + ExerciseWithLabels list" where
  "getExercisesByGroup_try db groupId =
     await (exercise_group_by_id db groupId) (\<lambda>groupData groupError.
       if groupError \<noteq> None then Inr []
       else case groupData of
         None \<Rightarrow> Inr []
       | Some grp \<Rightarrow>
           await (exercises_by_group db (toString groupId)) (\<lambda>exercisesByGroup groupError2.
             if groupError2 = None \<and> \<not> no_rows exercisesByGroup then
               body_section_fallback db grp (joined_body_section (exercise_body_section grp))
                 (\<lambda>bodySection.
                    fir_level_fallback db grp (joined_fir_level (exercise_fir grp))
                      (\<lambda>firLevel.
                         Inr (map (by_group_view bodySection firLevel)
                                (case exercisesByGroup of None \<Rightarrow> [] | Some rows \<Rightarrow> rows))))
             else Inr []))"

definition getExercisesByGroup :: "supabase \<Rightarrow> int \<Rightarrow> exn + ExerciseWithLabels list" where
  "getExercisesByGroup db groupId =
     (case getExercisesByGroup_try db groupId of Inl thrown \<Rightarrow> Inr [] | Inr result \<Rightarrow> Inr result)"

subsection \<open>getBodySections\<close>

definition fallback_sections :: "string option list" where
  "fallback_sections = [Some ''lower'', Some ''middle'', Some ''upper'']"

definition getBodySections_try :: "supabase \<Rightarrow> exn + string option list" where
  "getBodySections_try db =
     await (body_sections_in_id_order db) (\<lambda>data queryError.
       if queryError \<noteq> None then Inr fallback_sections
       else if no_rows data then Inr fallback_sections
       else Inr (map body_section (case data of None \<Rightarrow> [] | Some rows \<Rightarrow> rows)))"

definition getBodySections :: "supabase \<Rightarrow> exn + string option list" where
  "getBodySections db =
     (case getBodySections_try db of Inl thrown \<Rightarrow> Inr fallback_sections | Inr result \<Rightarrow> Inr result)"

subsection \<open>Databases used in the examples\<close>

definition offline_store :: supabase where
  "offline_store =
     \<lparr>categories_ilike = (\<lambda>pattern. Rejects), categories_all = Rejects,
      exercises_by_category = (\<lambda>category. Rejects), exercises_limit = (\<lambda>n. Rejects),
      exercise_by_id = (\<lambda>i. Rejects), rpc_exercise_groups = Rejects,
      exercise_groups_by_name = Rejects, exercise_fir_all = Rejects,
      exercise_body_section_all = Rejects, exercise_group_by_id = (\<lambda>i. Rejects),
      exercises_by_group = (\<lambda>key. Rejects), body_section_by_id = (\<lambda>i. Rejects),
      fir_by_id = (\<lambda>i. Rejects), body_sections_in_id_order = Rejects\<rparr>"

definition erroring_store :: supabase where
  "erroring_store =
     \<lparr>categories_ilike = (\<lambda>pattern. Reply None (Some (DbError ''down''))),
      categories_all = Reply None (Some (DbError ''down'')),
      exercises_by_category = (\<lambda>category. Reply None (Some (DbError ''down''))),
      exercises_limit = (\<lambda>n. Reply None (Some (DbError ''down''))),
      exercise_by_id = (\<lambda>i. Reply None (Some (DbError ''down''))),
      rpc_exercise_groups = Reply None (Some (DbError ''down'')),
      exercise_groups_by_name = Reply None (Some (DbError ''down'')),
      exercise_fir_all = Reply None (Some (DbError ''down'')),
      exercise_body_section_all = Reply None (Some (DbError ''down'')),
      exercise_group_by_id = (\<lambda>i. Reply None (Some (DbError ''down''))),
      exercises_by_group = (\<lambda>key. Reply None (Some (DbError ''down''))),
      body_section_by_id = (\<lambda>i. Reply None (Some (DbError ''down''))),
      fir_by_id = (\<lambda>i. Reply None (Some (DbError ''down''))),
      body_sections_in_id_order = Reply None (Some (DbError ''down''))\<rparr>"

definition push_group :: group_row where
  "push_group = \<lparr>g_id = 1, g_name = ''Push'', g_image_url = None, g_body_sec = 3, g_fir_level = Some 1\<rparr>"

definition rpc_down_store :: supabase where
  "rpc_down_store = erroring_store\<lparr>exercise_groups_by_name := Reply (Some [push_group]) None\<rparr>"

definition workout_category :: category_row where
  "workout_category = \<lparr>cat_id = 7, cat_name = ''Workout''\<rparr>"

definition exercises_down_store :: supabase where
  "exercises_down_store =
     erroring_store\<lparr>categories_ilike := (\<lambda>pattern. Reply (Some [workout_category]) None)\<rparr>"

definition legs_group :: joined_group where
  "legs_group =
     \<lparr>jg_body_sec = 1, jg_fir_level = Some 2,
      exercise_body_section = JObject \<lparr>bs_id = 1, body_section = Some ''lower''\<rparr>,
      exercise_fir = JArray [\<lparr>fir_id = 2, fir_name = Some ''High''\<rparr>]\<rparr>"

definition group_exercises_down_store :: supabase where
  "group_exercises_down_store =
     erroring_store\<lparr>exercise_group_by_id := (\<lambda>i. Reply (Some legs_group) None)\<rparr>"

definition fallback_down_store :: supabase where
  "fallback_down_store =
     erroring_store\<lparr>categories_ilike := (\<lambda>pattern. Reply (Some [workout_category]) None),
                    exercises_by_category := (\<lambda>category. Reply (Some []) None)\<rparr>"

definition sections_store :: supabase where
  "sections_store =
     erroring_store\<lparr>body_sections_in_id_order :=
       Reply (Some [\<lparr>bs_id = 1, body_section = Some ''upper''\<rparr>,
                    \<lparr>bs_id = 2, body_section = Some ''lower''\<rparr>]) None\<rparr>"

definition no_sections_store :: supabase where
  "no_sections_store = erroring_store\<lparr>body_sections_in_id_order := Reply (Some []) None\<rparr>"

definition null_sections_store :: supabase where
  "null_sections_store = erroring_store\<lparr>body_sections_in_id_order := Reply None None\<rparr>"

section \<open>Properties of the workout completion tracker\<close>

subsection \<open>Basic facts about the two callbacks\<close>

lemma find_date_None_iff: "find (\<lambda>day. date day = d) days = None \<longleftrightarrow> d \<notin> date ` set days"
  by (auto simp: find_None_iff)

lemma find_map_completed:
  "find (\<lambda>day. date day = d) (map (\<lambda>day. if date day = d then day\<lparr>completed := c\<rparr> else day) days)
     = map_option (\<lambda>day. day\<lparr>completed := c\<rparr>) (find (\<lambda>day. date day = d) days)"
  by (induction days) auto

lemma find_map_completed_other:
  "d' \<noteq> d \<Longrightarrow>
   find (\<lambda>day. date day = d') (map (\<lambda>day. if date day = d then day\<lparr>completed := c\<rparr> else day) days)
     = find (\<lambda>day. date day = d') days"
  by (induction days) auto

lemma find_filter_other:
  "d' \<noteq> d \<Longrightarrow>
   find (\<lambda>day. date day = d') (filter (\<lambda>day. date day \<noteq> d) days) = find (\<lambda>day. date day = d') days"
  by (induction days) auto

lemma find_filter_same:
  "find (\<lambda>day. date day = d) (filter (\<lambda>day. date day \<noteq> d) days) = None"
  by (induction days) auto

lemma find_append_other:
  "date w \<noteq> d' \<Longrightarrow> find (\<lambda>day. date day = d') (days @ [w]) = find (\<lambda>day. date day = d') days"
  by (induction days) auto

lemma find_append_same:
  "date w = d \<Longrightarrow>
   find (\<lambda>day. date day = d) (days @ [w])
     = (case find (\<lambda>day. date day = d) days of None \<Rightarrow> Some w | Some x \<Rightarrow> Some x)"
  by (induction days) auto

lemma filter_absent:
  "find (\<lambda>day. date day = d) days = None \<Longrightarrow> filter (\<lambda>day. date day \<noteq> d) days = days"
  by (induction days) (auto split: if_splits)

lemma find_first_match:
  "d \<notin> date ` set before \<Longrightarrow> date w = d \<Longrightarrow>
   find (\<lambda>day. date day = d) (before @ w # after) = Some w"
  by (induction before) auto

lemma single_match:
  "length (filter P xs) \<le> 1 \<Longrightarrow> find P xs = Some w \<Longrightarrow> x \<in> set xs \<Longrightarrow> P x \<Longrightarrow> x = w"
proof (induction xs)
  case Nil
  then show ?case by simp
next
  case (Cons a xs)
  show ?case
  proof (cases "P a")
    case True
    with Cons.prems have "filter P xs = []" and "w = a" by auto
    with Cons.prems True show ?thesis by (auto simp: filter_empty_conv)
  next
    case False
    with Cons show ?thesis by auto
  qed
qed

lemma map_restore_same:
  assumes "length (filter (\<lambda>day. date day = d) days) \<le> 1"
    and "find (\<lambda>day. date day = d) days = Some w"
  shows "map (\<lambda>day. if date day = d then day\<lparr>completed := completed w\<rparr> else day) days = days"
proof -
  have "\<And>x. x \<in> set days \<Longrightarrow> date x = d \<Longrightarrow> x = w"
    using single_match [OF assms] by blast
  then have "\<And>x. x \<in> set days \<Longrightarrow> (if date x = d then x\<lparr>completed := completed w\<rparr> else x) = x"
    by auto
  then show ?thesis by (simp add: map_idI)
qed

lemma map_map_completed:
  "map (\<lambda>day. if date day = d then day\<lparr>completed := c\<rparr> else day)
     (map (\<lambda>day. if date day = d then day\<lparr>completed := c'\<rparr> else day) days)
   = map (\<lambda>day. if date day = d then day\<lparr>completed := c\<rparr> else day) days"
  by (induction days) auto

lemma keys_map_completed:
  "map (\<lambda>w. (user_id w, date w)) (map (\<lambda>day. if date day = d then day\<lparr>completed := c\<rparr> else day) days)
     = map (\<lambda>w. (user_id w, date w)) days"
  by (induction days) auto

subsection \<open>The lookup of a date after each callback\<close>

lemma find_optimistic:
  "find (\<lambda>day. date day = d) (optimistic existingWorkout uid d c prev)
     = (case existingWorkout of
          Some w \<Rightarrow> map_option (\<lambda>day. day\<lparr>completed := c\<rparr>) (find (\<lambda>day. date day = d) prev)
        | None \<Rightarrow>
            (case find (\<lambda>day. date day = d) prev of
               None \<Rightarrow> Some \<lparr>user_id = uid, date = d, completed = c\<rparr>
             | Some x \<Rightarrow> Some x))"
  by (cases existingWorkout) (simp_all add: optimistic_def find_map_completed find_append_same)

lemma find_revert:
  "find (\<lambda>day. date day = d) (revert existingWorkout d prev)
     = (case existingWorkout of
          Some w \<Rightarrow> map_option (\<lambda>day. day\<lparr>completed := completed w\<rparr>) (find (\<lambda>day. date day = d) prev)
        | None \<Rightarrow> None)"
  by (cases existingWorkout) (simp_all add: revert_def find_map_completed find_filter_same)

lemma find_optimistic_other:
  "d' \<noteq> d \<Longrightarrow>
   find (\<lambda>day. date day = d') (optimistic existingWorkout uid d c prev) = find (\<lambda>day. date day = d') prev"
  by (cases existingWorkout)
    (simp_all add: optimistic_def find_map_completed_other find_append_other)

lemma find_revert_other:
  "d' \<noteq> d \<Longrightarrow>
   find (\<lambda>day. date day = d') (revert existingWorkout d prev) = find (\<lambda>day. date day = d') prev"
  by (cases existingWorkout) (simp_all add: revert_def find_map_completed_other find_filter_other)

lemma settle_cases:
  "toggle_settle existingWorkout d result s
     = (if failed result then s\<lparr>workoutDays := revert existingWorkout d (workoutDays s)\<rparr> else s)"
  by (simp add: toggle_settle_def failed_def split: action_result.splits)

lemma toggle_cases:
  "toggleWorkoutDay action (Some uid) rendered d s =
     (toggle_settle (find (\<lambda>day. date day = d) rendered) d
        (action uid d (newCompleted_of (find (\<lambda>day. date day = d) rendered)))
        (toggle_optimistic (Some uid) rendered d s),
      [ToggleWorkoutDayAction uid d (newCompleted_of (find (\<lambda>day. date day = d) rendered))])"
  by (simp add: toggleWorkoutDay_def toggle_optimistic_def Let_def)

lemma toggle_other_date:
  assumes "d' \<noteq> d"
  shows "find (\<lambda>day. date day = d') (workoutDays (fst (toggleWorkoutDay action user rendered d s)))
       = find (\<lambda>day. date day = d') (workoutDays s)"
proof (cases user)
  case None
  then show ?thesis by (simp add: toggleWorkoutDay_def)
next
  case (Some uid)
  with assms show ?thesis
    by (simp add: toggle_cases settle_cases toggle_optimistic_def Let_def
        find_optimistic_other find_revert_other)
qed

lemma run_toggles_other_dates:
  "d \<notin> set (map (\<lambda>(action, user, rendered, d'). d') ops) \<Longrightarrow>
   find (\<lambda>day. date day = d) (workoutDays (run_toggles ops s))
     = find (\<lambda>day. date day = d) (workoutDays s)"
proof (induction ops arbitrary: s)
  case Nil
  then show ?case by simp
next
  case (Cons op ops)
  obtain action user rendered d' where op: "op = (action, user, rendered, d')" by (cases op)
  with Cons.prems have "d \<noteq> d'" and "d \<notin> set (map (\<lambda>(action, user, rendered, d'). d') ops)"
    by auto
  with Cons.IH op show ?case by (simp add: toggle_other_date)
qed

lemma successful_toggle_find:
  assumes "\<not> failed (action uid d (newCompleted_of (find (\<lambda>day. date day = d) rendered)))"
    and "find (\<lambda>day. date day = d) rendered = find (\<lambda>day. date day = d) (workoutDays s)"
  shows "find (\<lambda>day. date day = d) (workoutDays (fst (toggleWorkoutDay action (Some uid) rendered d s)))
     = (case find (\<lambda>day. date day = d) (workoutDays s) of
          None \<Rightarrow> Some \<lparr>user_id = uid, date = d, completed = True\<rparr>
        | Some w \<Rightarrow> Some (w\<lparr>completed := \<not> completed w\<rparr>))"
  using assms
  by (simp add: toggle_cases settle_cases toggle_optimistic_def Let_def find_optimistic
      newCompleted_of_def split: option.splits)

subsection \<open>The guard on the user\<close>

text \<open>
  C7. Without a signed-in user \<open>toggleWorkoutDay\<close> returns at once: the list, the loading
  flag and the error message are what they were, and no call is sent to the server,
  whatever the server would have answered and whatever list the call was made from.
\<close>

theorem toggle_without_user_is_noop:
  "toggleWorkoutDay action None rendered d s = (s, [])
   \<and> workoutDays (fst (toggleWorkoutDay action None rendered d s)) = workoutDays s
   \<and> isLoading (fst (toggleWorkoutDay action None rendered d s)) = isLoading s
   \<and> error (fst (toggleWorkoutDay action None rendered d s)) = error s
   \<and> toggle_optimistic None rendered d s = s"
  by (simp add: toggleWorkoutDay_def toggle_optimistic_def)

subsection \<open>A successful write\<close>

text \<open>
  C8. When the action resolves with \<open>success\<close> true, the call ends in the state the
  optimistic update produced, whatever else the resolved object carries. The only call sent
  to the server is the write itself: nothing is read back. The arrival of a successful
  answer changes no state at all, whatever has happened to the list in the meantime.
\<close>

theorem successful_toggle_keeps_optimistic_state:
  assumes "action uid d (newCompleted_of (find (\<lambda>day. date day = d) rendered)) = Resolved True payload"
  shows "toggleWorkoutDay action (Some uid) rendered d s
           = (toggle_optimistic (Some uid) rendered d s,
              [ToggleWorkoutDayAction uid d (newCompleted_of (find (\<lambda>day. date day = d) rendered))])
       \<and> toggle_settle (find (\<lambda>day. date day = d) rendered) d
            (action uid d (newCompleted_of (find (\<lambda>day. date day = d) rendered))) later = later"
  using assms by (simp add: toggle_cases settle_cases failed_def)

theorem successful_toggle_keeps_optimistic_state_witness:
  "always_succeed ''u1'' ''2024-01-05''
      (newCompleted_of (find (\<lambda>day. date day = ''2024-01-05'') (workoutDays initial_tracker)))
     = Resolved True ()
   \<and> toggleWorkoutDay always_succeed (Some ''u1'') (workoutDays initial_tracker) ''2024-01-05''
        initial_tracker
     = (done_tracker, [ToggleWorkoutDayAction ''u1'' ''2024-01-05'' True])"
  using successful_toggle_keeps_optimistic_state [of always_succeed "''u1''" "''2024-01-05''"
      "workoutDays initial_tracker" "()" initial_tracker initial_tracker]
  by (simp add: always_succeed_def initial_tracker_def done_tracker_def done_day_def
      toggle_optimistic_def optimistic_def newCompleted_of_def)

subsection \<open>The lookup used by the calendar\<close>

text \<open>
  C4. \<open>isWorkoutCompleted\<close> only reads the list. It is false when no entry has the date,
  and otherwise the \<open>completed\<close> flag of the first entry with that date. In particular it is
  false for a date that no toggle has named, after any run of toggles from the initial
  state, whatever lists the calls were made from.
\<close>

theorem isWorkoutCompleted_is_lookup:
  "(d \<notin> date ` set (workoutDays s) \<longrightarrow> isWorkoutCompleted s d = False)
   \<and> (workoutDays s = before @ w # after \<and> d \<notin> date ` set before \<and> date w = d
        \<longrightarrow> isWorkoutCompleted s d = completed w)
   \<and> (d \<notin> set (map (\<lambda>(action, user, rendered, d'). d') ops)
        \<longrightarrow> isWorkoutCompleted (run_toggles ops initial_tracker) d = False)"
proof (intro conjI impI)
  assume "d \<notin> date ` set (workoutDays s)"
  then have "find (\<lambda>day. date day = d) (workoutDays s) = None"
    by (simp add: find_date_None_iff)
  then show "isWorkoutCompleted s d = False" by (simp add: isWorkoutCompleted_def)
next
  assume a: "workoutDays s = before @ w # after \<and> d \<notin> date ` set before \<and> date w = d"
  then have "find (\<lambda>day. date day = d) (before @ w # after) = Some w"
    by (simp add: find_first_match)
  with a show "isWorkoutCompleted s d = completed w" by (simp add: isWorkoutCompleted_def)
next
  assume "d \<notin> set (map (\<lambda>(action, user, rendered, d'). d') ops)"
  then have "find (\<lambda>day. date day = d) (workoutDays (run_toggles ops initial_tracker)) = None"
    by (simp add: run_toggles_other_dates initial_tracker_def)
  then show "isWorkoutCompleted (run_toggles ops initial_tracker) d = False"
    by (simp add: isWorkoutCompleted_def)
qed

theorem isWorkoutCompleted_is_lookup_witness:
  "isWorkoutCompleted
      (initial_tracker\<lparr>workoutDays :=
         [\<lparr>user_id = ''u1'', date = ''2024-01-04'', completed = False\<rparr>,
          \<lparr>user_id = ''u1'', date = ''2024-01-05'', completed = True\<rparr>]\<rparr>) ''2024-01-05'' = True
   \<and> isWorkoutCompleted
      (initial_tracker\<lparr>workoutDays :=
         [\<lparr>user_id = ''u1'', date = ''2024-01-04'', completed = False\<rparr>,
          \<lparr>user_id = ''u1'', date = ''2024-01-05'', completed = True\<rparr>]\<rparr>) ''2024-01-06'' = False
   \<and> isWorkoutCompleted
        (run_toggles [(always_succeed, Some ''u1'', [], ''2024-01-04'')] initial_tracker)
        ''2024-01-05'' = False"
  using isWorkoutCompleted_is_lookup [of "''2024-01-05''"
      "initial_tracker\<lparr>workoutDays :=
         [\<lparr>user_id = ''u1'', date = ''2024-01-04'', completed = False\<rparr>,
          \<lparr>user_id = ''u1'', date = ''2024-01-05'', completed = True\<rparr>]\<rparr>"
      "[\<lparr>user_id = ''u1'', date = ''2024-01-04'', completed = False\<rparr>]"
      "\<lparr>user_id = ''u1'', date = ''2024-01-05'', completed = True\<rparr>" "[]"
      "[(always_succeed, Some ''u1'', [], ''2024-01-04'')]"]
    isWorkoutCompleted_is_lookup [of "''2024-01-06''"
      "initial_tracker\<lparr>workoutDays :=
         [\<lparr>user_id = ''u1'', date = ''2024-01-04'', completed = False\<rparr>,
          \<lparr>user_id = ''u1'', date = ''2024-01-05'', completed = True\<rparr>]\<rparr>"
      "[]" "\<lparr>user_id = ''u1'', date = ''2024-01-05'', completed = True\<rparr>" "[]" "[]"]
  by (simp add: initial_tracker_def)

subsection \<open>A failed write\<close>

text \<open>
  C1, as stated, fails. Two calls are made from the initial render, whose list is empty.
  The first is written successfully and leaves the entry of the date in the list. The
  second still finds no entry in the rendered list, so it appends, and when its write
  fails the revert filters out every entry of the date: the entry that was there before
  the second call is gone.
\<close>

theorem stale_revert_removes_prior_day:
  "fst (toggleWorkoutDay always_succeed (Some ''u1'') [] ''2024-01-05'' initial_tracker) = done_tracker
   \<and> has_day ''2024-01-05'' (workoutDays done_tracker)
   \<and> always_fail ''u1'' ''2024-01-05'' True = Resolved False ()
   \<and> workoutDays (fst (toggleWorkoutDay always_fail (Some ''u1'') [] ''2024-01-05'' done_tracker)) = []
   \<and> \<not> has_day ''2024-01-05''
        (workoutDays (fst (toggleWorkoutDay always_fail (Some ''u1'') [] ''2024-01-05'' done_tracker)))"
  by (simp add: toggleWorkoutDay_def toggle_settle_def optimistic_def revert_def newCompleted_of_def
      has_day_def always_succeed_def always_fail_def initial_tracker_def done_tracker_def done_day_def)

text \<open>
  C1, amended. Let the call be made from a render whose list agrees with the current list
  on the entry of the date, as the render of the current state does, and let the write
  fail (the action resolves with \<open>success\<close> false, or it rejects). Then after the revert the
  entry of the date is what it was before the call: the lookup by date gives the same
  result, present or absent, with the same \<open>completed\<close> value. This also holds when other
  steps ran while the server was awaited, as long as they left the lookup of the date as
  the optimistic update had made it. When no entry existed and nothing else ran in
  between, the appended one is gone and the whole state is the state before the call; the
  same holds for the whole state whenever the list had at most one entry of that date. The
  loading flag and the error message are never touched.
\<close>

theorem failed_toggle_restores_day:
  assumes "find (\<lambda>day. date day = d) rendered = find (\<lambda>day. date day = d) (workoutDays s)"
    and "action uid d (newCompleted_of (find (\<lambda>day. date day = d) rendered)) = Resolved False payload
         \<or> action uid d (newCompleted_of (find (\<lambda>day. date day = d) rendered)) = Rejected"
  shows "find (\<lambda>day. date day = d) (workoutDays (fst (toggleWorkoutDay action (Some uid) rendered d s)))
           = find (\<lambda>day. date day = d) (workoutDays s)
       \<and> (find (\<lambda>day. date day = d) (workoutDays later)
             = find (\<lambda>day. date day = d) (workoutDays (toggle_optimistic (Some uid) rendered d s))
            \<longrightarrow> find (\<lambda>day. date day = d)
                  (workoutDays (toggle_settle (find (\<lambda>day. date day = d) rendered) d
                     (action uid d (newCompleted_of (find (\<lambda>day. date day = d) rendered))) later))
                = find (\<lambda>day. date day = d) (workoutDays s))
       \<and> (find (\<lambda>day. date day = d) (workoutDays s) = None
            \<longrightarrow> fst (toggleWorkoutDay action (Some uid) rendered d s) = s)
       \<and> (length (filter (\<lambda>day. date day = d) (workoutDays s)) \<le> 1
            \<longrightarrow> fst (toggleWorkoutDay action (Some uid) rendered d s) = s)
       \<and> isLoading (fst (toggleWorkoutDay action (Some uid) rendered d s)) = isLoading s
       \<and> error (fst (toggleWorkoutDay action (Some uid) rendered d s)) = error s"
proof -
  let ?e = "find (\<lambda>day. date day = d) rendered"
  let ?opt = "optimistic ?e uid d (newCompleted_of ?e) (workoutDays s)"
  from assms(2) have f: "failed (action uid d (newCompleted_of ?e))"
    by (auto simp: failed_def)
  have st: "fst (toggleWorkoutDay action (Some uid) rendered d s)
      = s\<lparr>workoutDays := revert ?e d ?opt\<rparr>"
    using f by (simp add: toggle_cases settle_cases toggle_optimistic_def Let_def)
  have lookup: "find (\<lambda>day. date day = d) (revert ?e d ?opt) = find (\<lambda>day. date day = d) (workoutDays s)"
  proof (cases "find (\<lambda>day. date day = d) (workoutDays s)")
    case None
    with assms(1) have "?e = None" by simp
    with None show ?thesis by (simp add: find_revert)
  next
    case (Some w)
    with assms(1) have "?e = Some w" by simp
    with Some show ?thesis by (simp add: find_revert find_optimistic)
  qed
  have later: "find (\<lambda>day. date day = d) (revert ?e d (workoutDays later))
        = find (\<lambda>day. date day = d) (workoutDays s)"
    if "find (\<lambda>day. date day = d) (workoutDays later) = find (\<lambda>day. date day = d) ?opt"
  proof -
    have "find (\<lambda>day. date day = d) (revert ?e d (workoutDays later))
        = find (\<lambda>day. date day = d) (revert ?e d ?opt)"
      using that by (simp only: find_revert)
    with lookup show ?thesis by simp
  qed
  have absent: "revert ?e d ?opt = workoutDays s" if "find (\<lambda>day. date day = d) (workoutDays s) = None"
    using that assms(1) by (simp add: revert_def optimistic_def filter_absent)
  have single: "revert ?e d ?opt = workoutDays s"
    if one: "length (filter (\<lambda>day. date day = d) (workoutDays s)) \<le> 1"
  proof (cases "find (\<lambda>day. date day = d) (workoutDays s)")
    case None
    then show ?thesis by (rule absent)
  next
    case (Some w)
    with assms(1) one show ?thesis
      by (simp add: revert_def optimistic_def map_map_completed map_restore_same del: map_map)
  qed
  show ?thesis
    unfolding st using f
    by (simp add: lookup later absent single settle_cases toggle_optimistic_def Let_def)
qed

theorem failed_toggle_restores_day_witness:
  "find (\<lambda>day. date day = ''2024-01-05'') (workoutDays done_tracker)
     = find (\<lambda>day. date day = ''2024-01-05'') (workoutDays done_tracker)
   \<and> always_fail ''u1'' ''2024-01-05''
       (newCompleted_of (find (\<lambda>day. date day = ''2024-01-05'') (workoutDays done_tracker)))
     = Resolved False ()
   \<and> length (filter (\<lambda>day. date day = ''2024-01-05'') (workoutDays done_tracker)) \<le> 1
   \<and> fst (toggleWorkoutDay always_fail (Some ''u1'') (workoutDays done_tracker) ''2024-01-05''
        done_tracker) = done_tracker
   \<and> find (\<lambda>day. date day = ''2024-01-05'') (workoutDays initial_tracker) = None
   \<and> fst (toggleWorkoutDay always_throw (Some ''u1'') (workoutDays initial_tracker) ''2024-01-05''
        initial_tracker) = initial_tracker"
  using failed_toggle_restores_day [of "''2024-01-05''" "workoutDays done_tracker" done_tracker
      always_fail "''u1''" "()" "toggle_optimistic (Some ''u1'') (workoutDays done_tracker) ''2024-01-05'' done_tracker"]
    failed_toggle_restores_day [of "''2024-01-05''" "workoutDays initial_tracker" initial_tracker
      always_throw "''u1''" "()" "toggle_optimistic (Some ''u1'') (workoutDays initial_tracker) ''2024-01-05'' initial_tracker"]
  by (simp add: always_fail_def always_throw_def done_tracker_def done_day_def initial_tracker_def)

subsection \<open>The first toggle of a date\<close>

text \<open>
  C2, as stated, fails in both readings of "no local record exists". When the current
  list has no entry of the date but the rendered list has one, the optimistic update maps
  over the current list and appends nothing. When the rendered list has no entry but the
  current list has one (the second of two calls from the initial render), the update
  appends a second entry of the date.
\<close>

theorem stale_render_breaks_first_toggle:
  "\<not> has_day ''2024-01-05'' (workoutDays initial_tracker)
   \<and> workoutDays (toggle_optimistic (Some ''u1'') [open_day] ''2024-01-05'' initial_tracker) = []
   \<and> fst (toggleWorkoutDay always_succeed (Some ''u1'') [] ''2024-01-05'' initial_tracker) = done_tracker
   \<and> workoutDays (toggle_optimistic (Some ''u1'') [] ''2024-01-05'' done_tracker)
       = [done_day, done_day]"
  by (simp add: toggleWorkoutDay_def toggle_settle_def toggle_optimistic_def optimistic_def
      newCompleted_of_def has_day_def always_succeed_def initial_tracker_def done_tracker_def
      done_day_def open_day_def)

text \<open>
  C2, amended. With a signed-in user, when neither the current list nor the list the call
  was made from has an entry for the date, the optimistic update appends one entry carrying
  the user's id, the date and \<open>completed = True\<close>. It is the only entry of that date, and
  the entries that were there before are all kept, unchanged and in place.
\<close>

theorem first_toggle_appends_completed_day:
  assumes "find (\<lambda>day. date day = d) rendered = None"
    and "find (\<lambda>day. date day = d) (workoutDays s) = None"
  shows "workoutDays (toggle_optimistic (Some uid) rendered d s)
           = workoutDays s @ [\<lparr>user_id = uid, date = d, completed = True\<rparr>]
       \<and> filter (\<lambda>day. date day = d) (workoutDays (toggle_optimistic (Some uid) rendered d s))
           = [\<lparr>user_id = uid, date = d, completed = True\<rparr>]
       \<and> take (length (workoutDays s)) (workoutDays (toggle_optimistic (Some uid) rendered d s))
           = workoutDays s
       \<and> length (workoutDays (toggle_optimistic (Some uid) rendered d s)) = Suc (length (workoutDays s))
       \<and> isLoading (toggle_optimistic (Some uid) rendered d s) = isLoading s
       \<and> error (toggle_optimistic (Some uid) rendered d s) = error s"
proof -
  from assms(2) have "filter (\<lambda>day. date day = d) (workoutDays s) = []"
    by (simp add: find_None_iff filter_empty_conv)
  with assms(1) show ?thesis
    by (simp add: toggle_optimistic_def optimistic_def newCompleted_of_def)
qed

theorem first_toggle_appends_completed_day_witness:
  "find (\<lambda>day. date day = ''2024-01-05'') (workoutDays initial_tracker) = None
   \<and> workoutDays (toggle_optimistic (Some ''u1'') (workoutDays initial_tracker) ''2024-01-05''
        initial_tracker)
       = [\<lparr>user_id = ''u1'', date = ''2024-01-05'', completed = True\<rparr>]"
  using first_toggle_appends_completed_day [of "''2024-01-05''" "workoutDays initial_tracker"
      initial_tracker "''u1''"]
  by (simp add: initial_tracker_def)

subsection \<open>Two toggles of one date\<close>

text \<open>
  C3, as stated, fails. Two calls made from one render read the same \<open>existingWorkout\<close> and
  write the same new value: from a render that shows the date as not completed, both set
  it to completed, and after two successful writes the flag is not back where it was.
\<close>

theorem two_toggles_from_one_render_do_not_restore:
  "always_succeed ''u1'' ''2024-01-05'' True = Resolved True ()
   \<and> isWorkoutCompleted open_tracker ''2024-01-05'' = False
   \<and> fst (toggleWorkoutDay always_succeed (Some ''u1'') [open_day] ''2024-01-05''
        (fst (toggleWorkoutDay always_succeed (Some ''u1'') [open_day] ''2024-01-05'' open_tracker)))
       = done_tracker
   \<and> isWorkoutCompleted done_tracker ''2024-01-05'' = True"
  by (simp add: toggleWorkoutDay_def toggle_settle_def optimistic_def newCompleted_of_def
      isWorkoutCompleted_def always_succeed_def open_tracker_def done_tracker_def done_day_def
      open_day_def)

text \<open>
  C3, amended. Two toggles of the same date, both written successfully and each made from a
  render whose list agrees with the then current list on the entry of the date, bring the
  \<open>completed\<close> flag of the date back to where it was: \<open>isWorkoutCompleted\<close> answers as
  before; an entry that existed is found again exactly as it was; a date without an entry
  ends with an entry whose flag is false.
\<close>

theorem toggle_twice_restores_completed:
  assumes "\<And>c. \<not> failed (first_action uid d c)" and "\<And>c. \<not> failed (second_action uid d c)"
    and "find (\<lambda>day. date day = d) rendered1 = find (\<lambda>day. date day = d) (workoutDays s)"
    and "find (\<lambda>day. date day = d) rendered2
          = find (\<lambda>day. date day = d)
              (workoutDays (fst (toggleWorkoutDay first_action (Some uid) rendered1 d s)))"
  shows "isWorkoutCompleted
           (fst (toggleWorkoutDay second_action (Some uid) rendered2 d
              (fst (toggleWorkoutDay first_action (Some uid) rendered1 d s)))) d
         = isWorkoutCompleted s d
       \<and> (\<forall>w. find (\<lambda>day. date day = d) (workoutDays s) = Some w \<longrightarrow>
            find (\<lambda>day. date day = d)
              (workoutDays (fst (toggleWorkoutDay second_action (Some uid) rendered2 d
                 (fst (toggleWorkoutDay first_action (Some uid) rendered1 d s))))) = Some w)
       \<and> (find (\<lambda>day. date day = d) (workoutDays s) = None \<longrightarrow>
            find (\<lambda>day. date day = d)
              (workoutDays (fst (toggleWorkoutDay second_action (Some uid) rendered2 d
                 (fst (toggleWorkoutDay first_action (Some uid) rendered1 d s)))))
              = Some \<lparr>user_id = uid, date = d, completed = False\<rparr>)"
proof -
  let ?s1 = "fst (toggleWorkoutDay first_action (Some uid) rendered1 d s)"
  have first: "find (\<lambda>day. date day = d) (workoutDays ?s1)
      = (case find (\<lambda>day. date day = d) (workoutDays s) of
           None \<Rightarrow> Some \<lparr>user_id = uid, date = d, completed = True\<rparr>
         | Some w \<Rightarrow> Some (w\<lparr>completed := \<not> completed w\<rparr>))"
    using assms(1,3) by (simp add: successful_toggle_find)
  have second: "find (\<lambda>day. date day = d)
        (workoutDays (fst (toggleWorkoutDay second_action (Some uid) rendered2 d ?s1)))
      = (case find (\<lambda>day. date day = d) (workoutDays ?s1) of
           None \<Rightarrow> Some \<lparr>user_id = uid, date = d, completed = True\<rparr>
         | Some w \<Rightarrow> Some (w\<lparr>completed := \<not> completed w\<rparr>))"
    using assms(2,4) by (simp add: successful_toggle_find)
  show ?thesis
    unfolding isWorkoutCompleted_def second first
    by (simp split: option.splits)
qed

theorem toggle_twice_restores_completed_witness:
  "\<not> failed (always_succeed ''u1'' ''2024-01-05'' True)
   \<and> \<not> failed (always_succeed ''u1'' ''2024-01-05'' False)
   \<and> fst (toggleWorkoutDay always_succeed (Some ''u1'') (workoutDays open_tracker) ''2024-01-05''
        open_tracker) = done_tracker
   \<and> isWorkoutCompleted
        (fst (toggleWorkoutDay always_succeed (Some ''u1'') (workoutDays done_tracker) ''2024-01-05''
           (fst (toggleWorkoutDay always_succeed (Some ''u1'') (workoutDays open_tracker)
              ''2024-01-05'' open_tracker))))
        ''2024-01-05''
      = isWorkoutCompleted open_tracker ''2024-01-05''"
proof -
  have first: "fst (toggleWorkoutDay always_succeed (Some ''u1'') (workoutDays open_tracker)
        ''2024-01-05'' open_tracker) = done_tracker"
    by (simp add: toggleWorkoutDay_def toggle_settle_def optimistic_def newCompleted_of_def
        always_succeed_def open_tracker_def done_tracker_def done_day_def open_day_def)
  have ok: "\<And>c. \<not> failed (always_succeed ''u1'' ''2024-01-05'' c)"
    by (simp add: always_succeed_def failed_def)
  show ?thesis
    using toggle_twice_restores_completed [of always_succeed "''u1''" "''2024-01-05''"
        always_succeed "workoutDays open_tracker" open_tracker "workoutDays done_tracker"]
    by (simp add: ok first)
qed

subsection \<open>One entry per user and date\<close>

lemma unique_days_optimistic:
  assumes "unique_days prev"
    and "existingWorkout \<noteq> None \<or> find (\<lambda>day. date day = d) prev = None"
  shows "unique_days (optimistic existingWorkout uid d c prev)"
proof (cases existingWorkout)
  case None
  with assms(2) have "(uid, d) \<notin> set (map (\<lambda>w. (user_id w, date w)) prev)"
    by (auto simp: find_None_iff)
  with assms(1) None show ?thesis by (simp add: unique_days_def optimistic_def)
next
  case (Some w)
  with assms(1) show ?thesis
    by (simp add: unique_days_def optimistic_def keys_map_completed del: map_map)
qed

lemma unique_days_revert:
  assumes "unique_days prev"
  shows "unique_days (revert existingWorkout d prev)"
proof (cases existingWorkout)
  case None
  with assms show ?thesis by (simp add: unique_days_def revert_def distinct_map_filter)
next
  case (Some w)
  with assms show ?thesis
    by (simp add: unique_days_def revert_def keys_map_completed del: map_map)
qed

lemma unique_days_settle:
  "unique_days (workoutDays s) \<Longrightarrow> unique_days (workoutDays (toggle_settle existingWorkout d result s))"
  by (simp add: settle_cases unique_days_revert)

lemma unique_days_begin:
  assumes "unique_days (workoutDays s)"
    and "find (\<lambda>day. date day = d) rendered \<noteq> None \<or> find (\<lambda>day. date day = d) (workoutDays s) = None"
  shows "unique_days (workoutDays (toggle_optimistic user rendered d s))"
  using assms by (cases user) (simp_all add: toggle_optimistic_def Let_def unique_days_optimistic)

lemma unique_days_toggle:
  assumes "unique_days (workoutDays s)"
    and "find (\<lambda>day. date day = d) rendered \<noteq> None \<or> find (\<lambda>day. date day = d) (workoutDays s) = None"
  shows "unique_days (workoutDays (fst (toggleWorkoutDay action user rendered d s)))"
proof (cases user)
  case None
  with assms show ?thesis by (simp add: toggleWorkoutDay_def)
next
  case (Some uid)
  with assms show ?thesis
    using unique_days_begin [OF assms, of "Some uid"]
    by (simp add: toggle_cases unique_days_settle)
qed

lemma unique_days_run_fresh:
  "unique_days (workoutDays s) \<Longrightarrow> unique_days (workoutDays (run_fresh ops s))"
proof (induction ops arbitrary: s)
  case Nil
  then show ?case by simp
next
  case (Cons op ops)
  obtain action user d where op: "op = (action, user, d)" by (cases op)
  have "unique_days (workoutDays (fst (toggleWorkoutDay action user (workoutDays s) d s)))"
    using Cons.prems by (rule unique_days_toggle) auto
  with Cons.IH op show ?case by simp
qed

text \<open>
  C5, as stated, fails. Two calls made from the initial render, both written successfully,
  both find no entry in the rendered list and both append: the list ends with two entries
  for the same user and date.
\<close>

theorem two_toggles_from_one_render_duplicate_day:
  "unique_days (workoutDays initial_tracker)
   \<and> workoutDays
        (fst (toggleWorkoutDay always_succeed (Some ''u1'') [] ''2024-01-05''
           (fst (toggleWorkoutDay always_succeed (Some ''u1'') [] ''2024-01-05'' initial_tracker))))
       = [done_day, done_day]
   \<and> \<not> unique_days
        (workoutDays
           (fst (toggleWorkoutDay always_succeed (Some ''u1'') [] ''2024-01-05''
              (fst (toggleWorkoutDay always_succeed (Some ''u1'') [] ''2024-01-05'' initial_tracker)))))"
  by (simp add: toggleWorkoutDay_def toggle_settle_def optimistic_def newCompleted_of_def
      unique_days_def always_succeed_def initial_tracker_def done_day_def)

text \<open>
  C5, amended. If no two entries share user id and date, this is still so after every
  revert, on whatever list it runs and whatever entry the call had found, and after every
  optimistic update that found an entry of the date in its rendered list or runs on a list
  without an entry of the date. Therefore it is kept by a complete call under the same
  condition, with any answer of the server, and by every call made from the render of the
  current state; every state reached from the initial one by such calls has the property.
\<close>

theorem toggle_preserves_unique_days:
  assumes "unique_days (workoutDays s)"
  shows "unique_days (workoutDays (toggle_settle existingWorkout d result s))
       \<and> unique_days (revert existingWorkout d (workoutDays s))
       \<and> (find (\<lambda>day. date day = d) rendered \<noteq> None
             \<or> find (\<lambda>day. date day = d) (workoutDays s) = None
            \<longrightarrow> unique_days (workoutDays (toggle_optimistic user rendered d s))
                \<and> unique_days (workoutDays (fst (toggleWorkoutDay action user rendered d s))))
       \<and> unique_days (workoutDays (fst (toggleWorkoutDay action user (workoutDays s) d s)))
       \<and> unique_days (workoutDays (run_fresh ops s))
       \<and> unique_days (workoutDays (run_fresh ops initial_tracker))"
proof -
  have init: "unique_days (workoutDays initial_tracker)"
    by (simp add: unique_days_def initial_tracker_def)
  have fresh: "unique_days (workoutDays (fst (toggleWorkoutDay action user (workoutDays s) d s)))"
    using assms by (rule unique_days_toggle) auto
  show ?thesis
    using assms init fresh
    by (simp add: unique_days_settle unique_days_revert unique_days_begin unique_days_toggle
        unique_days_run_fresh)
qed

theorem toggle_preserves_unique_days_witness:
  "unique_days (workoutDays done_tracker)
   \<and> find (\<lambda>day. date day = ''2024-01-05'') [open_day] \<noteq> None
   \<and> unique_days (workoutDays (toggle_optimistic (Some ''u1'') [open_day] ''2024-01-05'' done_tracker))
   \<and> unique_days (workoutDays (fst (toggleWorkoutDay always_throw (Some ''u1'') [open_day]
        ''2024-01-05'' done_tracker)))
   \<and> unique_days (workoutDays (run_fresh
        [(always_succeed, Some ''u1'', ''2024-01-05''), (always_fail, Some ''u1'', ''2024-01-05'')]
        done_tracker))"
proof -
  have u: "unique_days (workoutDays done_tracker)"
    by (simp add: unique_days_def done_tracker_def)
  have f: "find (\<lambda>day. date day = ''2024-01-05'') [open_day] \<noteq> None"
    by (simp add: open_day_def)
  note at_done = toggle_preserves_unique_days [OF u, where d = "''2024-01-05''"
      and rendered = "[open_day]" and user = "Some ''u1''" and action = always_throw
      and ops = "[(always_succeed, Some ''u1'', ''2024-01-05''), (always_fail, Some ''u1'', ''2024-01-05'')]"
      and existingWorkout = None and result = "Resolved True ()"]
  from at_done f
  have steps: "unique_days (workoutDays (toggle_optimistic (Some ''u1'') [open_day] ''2024-01-05'' done_tracker))
      \<and> unique_days (workoutDays (fst (toggleWorkoutDay always_throw (Some ''u1'') [open_day]
           ''2024-01-05'' done_tracker)))"
    by blast
  from at_done
  have runs: "unique_days (workoutDays (run_fresh
        [(always_succeed, Some ''u1'', ''2024-01-05''), (always_fail, Some ''u1'', ''2024-01-05'')]
        done_tracker))"
    by blast
  from u f steps runs show ?thesis by blast
qed

subsection \<open>When an entry leaves the list\<close>









section \<open>Properties of the exercise queries\<close>

text \<open>
  C9, as stated, fails: an error reported by the database does not always give the empty
  list. When the RPC of \<open>getExerciseGroups\<close> reports an error, the rows of the fallback query
  are returned; when the fallback query of \<open>getWorkoutExercises\<close> reports an error, the
  placeholder exercise is returned.
\<close>

theorem reported_errors_do_not_always_empty_the_result:
  "rpc_exercise_groups rpc_down_store = Reply None (Some (DbError ''down''))
   \<and> getExerciseGroups rpc_down_store =
     Inr [\<lparr>group_id = 1, group_name = ''Push'', group_description = None, group_image_url = None,
           body_sec = 3, body_section_name = None, fir_level = Some 1, fir_level_name = None,
           category_id = None\<rparr>]
   \<and> getExerciseGroups rpc_down_store \<noteq> Inr []
   \<and> exercises_limit fallback_down_store 10 = Reply None (Some (DbError ''down''))
   \<and> getWorkoutExercises fallback_down_store = Inr [workout_placeholder]
   \<and> getWorkoutExercises fallback_down_store \<noteq> Inr []"
  by (simp add: getExerciseGroups_def getExerciseGroups_try_def await_def rpc_down_store_def
      erroring_store_def push_group_def fallback_group_view_def lookup_or_null_def
      firMap_of_def bodySectionMap_of_def getWorkoutExercises_def getWorkoutExercises_try_def
      fallback_down_store_def no_rows_def)

lemma catch_list_returns:
  "\<not> isl (case body of Inl thrown \<Rightarrow> Inr dflt | Inr result \<Rightarrow> Inr result)"
  by (cases body) simp_all

lemma actions_return:
  "\<not> isl (getWarmupExercises db)" "\<not> isl (getStretchExercises db)"
  "\<not> isl (getWorkoutExercises db)" "\<not> isl (getExercisesByType db type)"
  "\<not> isl (getExerciseGroups db)" "\<not> isl (getExercisesByGroup db groupId)"
  "\<not> isl (getExerciseById db i)"
  by (simp_all add: getWarmupExercises_def getStretchExercises_def getWorkoutExercises_def
      getExercisesByType_def getExerciseGroups_def getExercisesByGroup_def getExerciseById_def
      catch_list_returns)

lemma thrown_gives_empty:
  "getWarmupExercises_try db = Inl e \<Longrightarrow> getWarmupExercises db = Inr []"
  "getStretchExercises_try db = Inl e \<Longrightarrow> getStretchExercises db = Inr []"
  "getWorkoutExercises_try db = Inl e \<Longrightarrow> getWorkoutExercises db = Inr []"
  "getExercisesByType_try db type = Inl e \<Longrightarrow> getExercisesByType db type = Inr []"
  "getExerciseGroups_try db = Inl e \<Longrightarrow> getExerciseGroups db = Inr []"
  "getExercisesByGroup_try db groupId = Inl e \<Longrightarrow> getExercisesByGroup db groupId = Inr []"
  "getExerciseById_try db i = Inl e \<Longrightarrow> getExerciseById db i = Inr None"
  by (simp_all add: getWarmupExercises_def getStretchExercises_def getWorkoutExercises_def
      getExercisesByType_def getExerciseGroups_def getExercisesByGroup_def getExerciseById_def)

lemma first_query_rejects:
  "categories_ilike db ''%warmup%'' = Rejects \<Longrightarrow> getWarmupExercises db = Inr []"
  "categories_ilike db ''%stretch%'' = Rejects \<Longrightarrow> getStretchExercises db = Inr []"
  "categories_ilike db ''%workout%'' = Rejects \<Longrightarrow> getWorkoutExercises db = Inr []"
  "categories_ilike db (categoryPattern type) = Rejects \<Longrightarrow> getExercisesByType db type = Inr []"
  "rpc_exercise_groups db = Rejects \<Longrightarrow> getExerciseGroups db = Inr []"
  "exercise_group_by_id db groupId = Rejects \<Longrightarrow> getExercisesByGroup db groupId = Inr []"
  "exercise_by_id db i = Rejects \<Longrightarrow> getExerciseById db i = Inr None"
  by (simp_all add: getWarmupExercises_def getStretchExercises_def getWorkoutExercises_def
      getExercisesByType_def getExerciseGroups_def getExercisesByGroup_def getExerciseById_def
      getWarmupExercises_try_def getStretchExercises_try_def getWorkoutExercises_try_def
      getExercisesByType_try_def getExerciseGroups_try_def getExercisesByGroup_try_def
      getExerciseById_try_def await_def)

lemma category_query_error:
  "categories_ilike db ''%warmup%'' = Reply catData (Some err) \<Longrightarrow> getWarmupExercises db = Inr []"
  "categories_ilike db ''%stretch%'' = Reply catData (Some err) \<Longrightarrow> getStretchExercises db = Inr []"
  "categories_ilike db ''%workout%'' = Reply catData (Some err) \<Longrightarrow> getWorkoutExercises db = Inr []"
  by (simp_all add: getWarmupExercises_def getStretchExercises_def getWorkoutExercises_def
      getWarmupExercises_try_def getStretchExercises_try_def getWorkoutExercises_try_def await_def)

lemma exercises_query_error:
  assumes "exercises_by_category db (cat_id category) = Reply exData (Some err)"
  shows
    "categories_ilike db ''%warmup%'' = Reply (Some (category # others)) None
       \<Longrightarrow> getWarmupExercises db = Inr []"
    "categories_ilike db ''%stretch%'' = Reply (Some (category # others)) None
       \<Longrightarrow> getStretchExercises db = Inr []"
    "categories_ilike db ''%workout%'' = Reply (Some (category # others)) None
       \<Longrightarrow> getWorkoutExercises db = Inr []"
    "categories_ilike db (categoryPattern type) = Reply (Some (category # others)) anyError
       \<Longrightarrow> getExercisesByType db type = Inr []"
  using assms
  by (simp_all add: getWarmupExercises_def getStretchExercises_def getWorkoutExercises_def
      getExercisesByType_def getWarmupExercises_try_def getStretchExercises_try_def
      getWorkoutExercises_try_def getExercisesByType_try_def await_def)

lemma groups_both_queries_error:
  "rpc_exercise_groups db = Reply rpcData (Some err) \<Longrightarrow>
   exercise_groups_by_name db = Reply groupData (Some err') \<Longrightarrow>
   getExerciseGroups db = Inr []"
  by (simp add: getExerciseGroups_def getExerciseGroups_try_def await_def)

lemma by_group_query_error:
  "exercise_group_by_id db groupId = Reply joinedData (Some err) \<Longrightarrow>
     getExercisesByGroup db groupId = Inr []"
  "exercise_group_by_id db groupId = Reply (Some grp) None \<Longrightarrow>
   exercises_by_group db (toString groupId) = Reply exData (Some err) \<Longrightarrow>
     getExercisesByGroup db groupId = Inr []"
  by (simp_all add: getExercisesByGroup_def getExercisesByGroup_try_def await_def)

lemma groups_rpc_error_fallback_rows:
  "rpc_exercise_groups db = Reply rpcData (Some err) \<Longrightarrow>
   exercise_groups_by_name db = Reply (Some groups) None \<Longrightarrow>
   exercise_fir_all db = Reply firData firError \<Longrightarrow>
   exercise_body_section_all db = Reply bodySectionData bodySectionError \<Longrightarrow>
   getExerciseGroups db
     = Inr (map (fallback_group_view (bodySectionMap_of bodySectionData) (firMap_of firData)) groups)"
  by (simp add: getExerciseGroups_def getExerciseGroups_try_def await_def)

lemma workout_fallback_error_placeholder:
  "categories_ilike db ''%workout%'' = Reply (Some (category # others)) None \<Longrightarrow>
   exercises_by_category db (cat_id category) = Reply exData None \<Longrightarrow>
   no_rows exData \<Longrightarrow>
   exercises_limit db 10 = Reply fallbackData (Some err) \<Longrightarrow>
   getWorkoutExercises db = Inr [workout_placeholder]"
  by (simp add: getWorkoutExercises_def getWorkoutExercises_try_def await_def)

lemma by_id_query_error:
  "exercise_by_id db i = Reply rowData (Some err) \<Longrightarrow> getExerciseById db i = Inr None"
  by (simp add: getExerciseById_def getExerciseById_try_def await_def)

text \<open>
  C9, amended. No exercise query lets an exception escape: each returns a value whatever
  the database does. Whenever the body throws, in particular when the first query rejects,
  the list actions return the empty list and \<open>getExerciseById\<close> returns \<open>undefined\<close>.
  A reported error gives the empty list when it comes from the category query of the warmup,
  stretch and workout actions, from the exercises query of those three and of
  \<open>getExercisesByType\<close>, from both the RPC and the fallback query of \<open>getExerciseGroups\<close>, or
  from the group query or the exercises query of \<open>getExercisesByGroup\<close>; in
  \<open>getExerciseById\<close> it gives \<open>undefined\<close>.
\<close>

theorem exercise_queries_absorb_failures:
  "\<not> isl (getWarmupExercises db) \<and> \<not> isl (getStretchExercises db)
   \<and> \<not> isl (getWorkoutExercises db) \<and> \<not> isl (getExercisesByType db type)
   \<and> \<not> isl (getExerciseGroups db) \<and> \<not> isl (getExercisesByGroup db groupId)
   \<and> \<not> isl (getExerciseById db i)
   \<and> (getWarmupExercises_try db = Inl e1 \<longrightarrow> getWarmupExercises db = Inr [])
   \<and> (getStretchExercises_try db = Inl e2 \<longrightarrow> getStretchExercises db = Inr [])
   \<and> (getWorkoutExercises_try db = Inl e3 \<longrightarrow> getWorkoutExercises db = Inr [])
   \<and> (getExercisesByType_try db type = Inl e4 \<longrightarrow> getExercisesByType db type = Inr [])
   \<and> (getExerciseGroups_try db = Inl e5 \<longrightarrow> getExerciseGroups db = Inr [])
   \<and> (getExercisesByGroup_try db groupId = Inl e6 \<longrightarrow> getExercisesByGroup db groupId = Inr [])
   \<and> (getExerciseById_try db i = Inl e7 \<longrightarrow> getExerciseById db i = Inr None)
   \<and> (categories_ilike db ''%warmup%'' = Rejects \<longrightarrow> getWarmupExercises db = Inr [])
   \<and> (categories_ilike db ''%stretch%'' = Rejects \<longrightarrow> getStretchExercises db = Inr [])
   \<and> (categories_ilike db ''%workout%'' = Rejects \<longrightarrow> getWorkoutExercises db = Inr [])
   \<and> (categories_ilike db (categoryPattern type) = Rejects \<longrightarrow> getExercisesByType db type = Inr [])
   \<and> (rpc_exercise_groups db = Rejects \<longrightarrow> getExerciseGroups db = Inr [])
   \<and> (exercise_group_by_id db groupId = Rejects \<longrightarrow> getExercisesByGroup db groupId = Inr [])
   \<and> (exercise_by_id db i = Rejects \<longrightarrow> getExerciseById db i = Inr None)
   \<and> (categories_ilike db ''%warmup%'' = Reply catData (Some err) \<longrightarrow> getWarmupExercises db = Inr [])
   \<and> (categories_ilike db ''%stretch%'' = Reply catData (Some err) \<longrightarrow> getStretchExercises db = Inr [])
   \<and> (categories_ilike db ''%workout%'' = Reply catData (Some err) \<longrightarrow> getWorkoutExercises db = Inr [])
   \<and> (categories_ilike db ''%warmup%'' = Reply (Some (category # others)) None
        \<and> exercises_by_category db (cat_id category) = Reply exData (Some err)
        \<longrightarrow> getWarmupExercises db = Inr [])
   \<and> (categories_ilike db ''%stretch%'' = Reply (Some (category # others)) None
        \<and> exercises_by_category db (cat_id category) = Reply exData (Some err)
        \<longrightarrow> getStretchExercises db = Inr [])
   \<and> (categories_ilike db ''%workout%'' = Reply (Some (category # others)) None
        \<and> exercises_by_category db (cat_id category) = Reply exData (Some err)
        \<longrightarrow> getWorkoutExercises db = Inr [])
   \<and> (categories_ilike db (categoryPattern type) = Reply (Some (category # others)) anyError
        \<and> exercises_by_category db (cat_id category) = Reply exData (Some err)
        \<longrightarrow> getExercisesByType db type = Inr [])
   \<and> (rpc_exercise_groups db = Reply rpcData (Some err)
        \<and> exercise_groups_by_name db = Reply groupData (Some err')
        \<longrightarrow> getExerciseGroups db = Inr [])
   \<and> (exercise_group_by_id db groupId = Reply joinedData (Some err)
        \<longrightarrow> getExercisesByGroup db groupId = Inr [])
   \<and> (exercise_group_by_id db groupId = Reply (Some grp) None
        \<and> exercises_by_group db (toString groupId) = Reply exData (Some err)
        \<longrightarrow> getExercisesByGroup db groupId = Inr [])
   \<and> (exercise_by_id db i = Reply rowData (Some err) \<longrightarrow> getExerciseById db i = Inr None)
   \<and> (rpc_exercise_groups db = Reply rpcData (Some err)
        \<and> exercise_groups_by_name db = Reply (Some groups) None
        \<and> exercise_fir_all db = Reply firData firError
        \<and> exercise_body_section_all db = Reply bodySectionData bodySectionError
        \<longrightarrow> getExerciseGroups db
              = Inr (map (fallback_group_view (bodySectionMap_of bodySectionData) (firMap_of firData))
                       groups))
   \<and> (categories_ilike db ''%workout%'' = Reply (Some (category # others)) None
        \<and> exercises_by_category db (cat_id category) = Reply noData None \<and> no_rows noData
        \<and> exercises_limit db 10 = Reply fallbackData (Some err)
        \<longrightarrow> getWorkoutExercises db = Inr [workout_placeholder])"
  by (intro conjI impI; (elim conjE)?)
    (simp_all add: actions_return thrown_gives_empty first_query_rejects category_query_error
      exercises_query_error groups_both_queries_error by_group_query_error by_id_query_error
      groups_rpc_error_fallback_rows workout_fallback_error_placeholder)

lemma offline_bodies_throw:
  "getWarmupExercises_try offline_store = Inl QueryRejected"
  "getStretchExercises_try offline_store = Inl QueryRejected"
  "getWorkoutExercises_try offline_store = Inl QueryRejected"
  "getExercisesByType_try offline_store Stretch = Inl QueryRejected"
  "getExerciseGroups_try offline_store = Inl QueryRejected"
  "getExercisesByGroup_try offline_store 4 = Inl QueryRejected"
  "getExerciseById_try offline_store 12 = Inl QueryRejected"
  by (simp_all add: getWarmupExercises_try_def getStretchExercises_try_def
      getWorkoutExercises_try_def getExercisesByType_try_def getExerciseGroups_try_def
      getExercisesByGroup_try_def getExerciseById_try_def await_def offline_store_def)

theorem exercise_queries_absorb_failures_witness:
  "getWarmupExercises_try offline_store = Inl QueryRejected
   \<and> getWarmupExercises offline_store = Inr []
   \<and> getStretchExercises offline_store = Inr []
   \<and> getWorkoutExercises offline_store = Inr []
   \<and> getExercisesByType offline_store Stretch = Inr []
   \<and> getExerciseGroups offline_store = Inr []
   \<and> getExercisesByGroup offline_store 4 = Inr []
   \<and> getExerciseById offline_store 12 = Inr None
   \<and> categories_ilike erroring_store ''%warmup%'' = Reply None (Some (DbError ''down''))
   \<and> getWarmupExercises erroring_store = Inr []
   \<and> getStretchExercises erroring_store = Inr []
   \<and> getWorkoutExercises erroring_store = Inr []
   \<and> getExerciseGroups erroring_store = Inr []
   \<and> getExercisesByGroup erroring_store 4 = Inr []
   \<and> getExerciseById erroring_store 12 = Inr None
   \<and> exercises_by_category exercises_down_store (cat_id workout_category)
        = Reply None (Some (DbError ''down''))
   \<and> getWarmupExercises exercises_down_store = Inr []
   \<and> getStretchExercises exercises_down_store = Inr []
   \<and> getWorkoutExercises exercises_down_store = Inr []
   \<and> getExercisesByType exercises_down_store Stretch = Inr []
   \<and> exercises_by_group group_exercises_down_store (toString 4) = Reply None (Some (DbError ''down''))
   \<and> getExercisesByGroup group_exercises_down_store 4 = Inr []
   \<and> exercise_groups_by_name rpc_down_store = Reply (Some [push_group]) None
   \<and> getExerciseGroups rpc_down_store
       = Inr (map (fallback_group_view (bodySectionMap_of None) (firMap_of None)) [push_group])
   \<and> exercises_limit fallback_down_store 10 = Reply None (Some (DbError ''down''))
   \<and> getWorkoutExercises fallback_down_store = Inr [workout_placeholder]"
proof -
  have rejects:
    "categories_ilike offline_store ''%warmup%'' = Rejects"
    "categories_ilike offline_store ''%stretch%'' = Rejects"
    "categories_ilike offline_store ''%workout%'' = Rejects"
    "categories_ilike offline_store (categoryPattern Stretch) = Rejects"
    "rpc_exercise_groups offline_store = Rejects"
    "exercise_group_by_id offline_store 4 = Rejects"
    "exercise_by_id offline_store 12 = Rejects"
    by (simp_all add: offline_store_def)
  have errors:
    "categories_ilike erroring_store ''%warmup%'' = Reply None (Some (DbError ''down''))"
    "categories_ilike erroring_store ''%stretch%'' = Reply None (Some (DbError ''down''))"
    "categories_ilike erroring_store ''%workout%'' = Reply None (Some (DbError ''down''))"
    "rpc_exercise_groups erroring_store = Reply None (Some (DbError ''down''))"
    "exercise_groups_by_name erroring_store = Reply None (Some (DbError ''down''))"
    "exercise_group_by_id erroring_store 4 = Reply None (Some (DbError ''down''))"
    "exercise_by_id erroring_store 12 = Reply None (Some (DbError ''down''))"
    by (simp_all add: erroring_store_def)
  have second:
    "categories_ilike exercises_down_store ''%warmup%'' = Reply (Some (workout_category # [])) None"
    "categories_ilike exercises_down_store ''%stretch%'' = Reply (Some (workout_category # [])) None"
    "categories_ilike exercises_down_store ''%workout%'' = Reply (Some (workout_category # [])) None"
    "categories_ilike exercises_down_store (categoryPattern Stretch)
       = Reply (Some (workout_category # [])) None"
    "exercises_by_category exercises_down_store (cat_id workout_category)
       = Reply None (Some (DbError ''down''))"
    by (simp_all add: exercises_down_store_def erroring_store_def)
  have third:
    "exercise_group_by_id group_exercises_down_store 4 = Reply (Some legs_group) None"
    "exercises_by_group group_exercises_down_store (toString 4) = Reply None (Some (DbError ''down''))"
    by (simp_all add: group_exercises_down_store_def erroring_store_def)
  have fourth:
    "rpc_exercise_groups rpc_down_store = Reply None (Some (DbError ''down''))"
    "exercise_groups_by_name rpc_down_store = Reply (Some [push_group]) None"
    "exercise_fir_all rpc_down_store = Reply None (Some (DbError ''down''))"
    "exercise_body_section_all rpc_down_store = Reply None (Some (DbError ''down''))"
    by (simp_all add: rpc_down_store_def erroring_store_def)
  have fifth:
    "categories_ilike fallback_down_store ''%workout%'' = Reply (Some (workout_category # [])) None"
    "exercises_by_category fallback_down_store (cat_id workout_category) = Reply (Some []) None"
    "no_rows (Some ([] :: exercise_row list))"
    "exercises_limit fallback_down_store 10 = Reply None (Some (DbError ''down''))"
    by (simp_all add: fallback_down_store_def erroring_store_def no_rows_def)
  note at_fourth = exercise_queries_absorb_failures [where db = rpc_down_store and rpcData = None
      and err = "DbError ''down''" and groups = "[push_group]" and firData = None
      and firError = "Some (DbError ''down'')" and bodySectionData = None
      and bodySectionError = "Some (DbError ''down'')"]
  note at_fifth = exercise_queries_absorb_failures [where db = fallback_down_store
      and category = workout_category and others = "[]" and noData = "Some []"
      and fallbackData = None and err = "DbError ''down''"]
  note at_offline = exercise_queries_absorb_failures [where db = offline_store and type = Stretch
      and groupId = 4 and i = 12 and ?e1.0 = QueryRejected and ?e2.0 = QueryRejected
      and ?e3.0 = QueryRejected and ?e4.0 = QueryRejected and ?e5.0 = QueryRejected
      and ?e6.0 = QueryRejected and ?e7.0 = QueryRejected]
  note at_erroring = exercise_queries_absorb_failures [where db = erroring_store and groupId = 4
      and i = 12 and catData = None and err = "DbError ''down''" and err' = "DbError ''down''"
      and rpcData = None and groupData = None and joinedData = None and rowData = None]
  note at_second = exercise_queries_absorb_failures [where db = exercises_down_store
      and type = Stretch and category = workout_category and others = "[]" and exData = None
      and err = "DbError ''down''" and anyError = None]
  note at_third = exercise_queries_absorb_failures [where db = group_exercises_down_store
      and groupId = 4 and grp = legs_group and exData = None and err = "DbError ''down''"]
  show ?thesis
    using at_offline at_erroring at_second at_third at_fourth at_fifth
    by (simp add: offline_bodies_throw rejects errors second third fourth fifth)
qed

text \<open>
  C10. \<open>getBodySections\<close> always returns a non-empty list. When the query rejects, reports
  an error or yields no rows, the list is the fallback "lower", "middle", "upper" in this
  order; otherwise it is the \<open>body_section\<close> values of the rows, in the order of the rows.
\<close>

theorem getBodySections_never_empty:
  "(\<exists>sections. getBodySections db = Inr sections \<and> sections \<noteq> [])
   \<and> (body_sections_in_id_order db = Rejects \<longrightarrow> getBodySections db = Inr fallback_sections)
   \<and> (body_sections_in_id_order db = Reply anyData (Some err)
        \<longrightarrow> getBodySections db = Inr fallback_sections)
   \<and> (body_sections_in_id_order db = Reply None None \<longrightarrow> getBodySections db = Inr fallback_sections)
   \<and> (body_sections_in_id_order db = Reply (Some []) None
        \<longrightarrow> getBodySections db = Inr fallback_sections)
   \<and> (body_sections_in_id_order db = Reply (Some (row # rows)) None
        \<longrightarrow> getBodySections db = Inr (map body_section (row # rows)))
   \<and> fallback_sections = [Some ''lower'', Some ''middle'', Some ''upper'']"
proof -
  have nonempty: "\<exists>sections. getBodySections db = Inr sections \<and> sections \<noteq> []"
  proof (cases "body_sections_in_id_order db")
    case Rejects
    then show ?thesis
      by (simp add: getBodySections_def getBodySections_try_def await_def fallback_sections_def)
  next
    case (Reply d e)
    show ?thesis
    proof (cases "e \<noteq> None \<or> no_rows d")
      case True
      with Reply show ?thesis
        by (auto simp: getBodySections_def getBodySections_try_def await_def fallback_sections_def)
    next
      case False
      then obtain row rows where "d = Some (row # rows)" and "e = None"
        by (cases d) (auto simp: no_rows_def neq_Nil_conv)
      with Reply show ?thesis
        by (simp add: getBodySections_def getBodySections_try_def await_def no_rows_def)
    qed
  qed
  show ?thesis
    by (intro conjI impI nonempty)
      (simp_all add: getBodySections_def getBodySections_try_def await_def no_rows_def
        fallback_sections_def)
qed

theorem getBodySections_never_empty_witness:
  "body_sections_in_id_order offline_store = Rejects
   \<and> getBodySections offline_store = Inr [Some ''lower'', Some ''middle'', Some ''upper'']
   \<and> body_sections_in_id_order erroring_store = Reply None (Some (DbError ''down''))
   \<and> getBodySections erroring_store = Inr [Some ''lower'', Some ''middle'', Some ''upper'']
   \<and> body_sections_in_id_order null_sections_store = Reply None None
   \<and> getBodySections null_sections_store = Inr [Some ''lower'', Some ''middle'', Some ''upper'']
   \<and> body_sections_in_id_order no_sections_store = Reply (Some []) None
   \<and> getBodySections no_sections_store = Inr [Some ''lower'', Some ''middle'', Some ''upper'']
   \<and> getBodySections sections_store = Inr [Some ''upper'', Some ''lower'']"
proof -
  have h1: "body_sections_in_id_order offline_store = Rejects"
    by (simp add: offline_store_def)
  have h2: "body_sections_in_id_order erroring_store = Reply None (Some (DbError ''down''))"
    by (simp add: erroring_store_def)
  have h3: "body_sections_in_id_order null_sections_store = Reply None None"
    by (simp add: null_sections_store_def erroring_store_def)
  have h4: "body_sections_in_id_order no_sections_store = Reply (Some []) None"
    by (simp add: no_sections_store_def erroring_store_def)
  have h5: "body_sections_in_id_order sections_store
      = Reply (Some (\<lparr>bs_id = 1, body_section = Some ''upper''\<rparr>
                     # [\<lparr>bs_id = 2, body_section = Some ''lower''\<rparr>])) None"
    by (simp add: sections_store_def erroring_store_def)
  show ?thesis
    using getBodySections_never_empty [where db = offline_store]
      getBodySections_never_empty [where db = erroring_store and anyData = None
        and err = "DbError ''down''"]
      getBodySections_never_empty [where db = null_sections_store]
      getBodySections_never_empty [where db = no_sections_store]
      getBodySections_never_empty [where db = sections_store
        and row = "\<lparr>bs_id = 1, body_section = Some ''upper''\<rparr>"
        and rows = "[\<lparr>bs_id = 2, body_section = Some ''lower''\<rparr>]"]
    by (simp add: h1 h2 h3 h4 h5)
qed

end
